theory Spec2Isabelle
  imports Complex_Main "HOL-Library.Multiset" "HOL-Library.Word"
begin

section \<open>Go values shared by the models package\<close>

text \<open>
  A Go \<^verbatim>\<open>error\<close> is \<open>None\<close> for \<^verbatim>\<open>nil\<close> and \<open>Some msg\<close> otherwise. The
  \<^verbatim>\<open>int64\<close> identifiers, counts, limits and offsets are never added or multiplied in the
  functions embedded here (only compared, stored and formatted), so they are \<open>int\<close>.
  HTTP statuses are the numeric constants of \<^verbatim>\<open>net/http\<close>.
\<close>

type_synonym go_error = "string option"

abbreviation StatusOK :: int where "StatusOK \<equiv> 200"
abbreviation StatusBadRequest :: int where "StatusBadRequest \<equiv> 400"
abbreviation StatusNotFound :: int where "StatusNotFound \<equiv> 404"
abbreviation StatusInternalServerError :: int where "StatusInternalServerError \<equiv> 500"

text \<open>\<^verbatim>\<open>fmt.Sprintf("%d", n)\<close>: decimal digits, with a minus sign for negative numbers.\<close>

definition digit :: "nat \<Rightarrow> char" where
  "digit d = ''0123456789'' ! d"

fun digits :: "nat \<Rightarrow> string" where
  "digits n = (if n < 10 then [digit n] else digits (n div 10) @ [digit (n mod 10)])"

declare digits.simps [simp del]

definition fmt_d :: "int \<Rightarrow> string" where
  "fmt_d i = (if i < 0 then CHR ''-'' # digits (nat (- i)) else digits (nat i))"

text \<open>
  The outcome of \<^verbatim>\<open>db.QueryRow(...).Scan(...)\<close>: \<^verbatim>\<open>sql.ErrNoRows\<close>, another error, or
  the scanned row. The SQL itself belongs to the data store, so each query of the source is
  a field of the \<open>world\<close> below that returns such an outcome.
\<close>

datatype 'a query_result = ErrNoRows | QueryError string | Row 'a

text \<open>
  The outcome of \<^verbatim>\<open>db.Query\<close>: the query fails, or it yields rows, each of which scans
  (\<open>Inr\<close>) or fails to scan (\<open>Inl\<close>), followed by the value of \<^verbatim>\<open>rows.Err()\<close>.
\<close>

datatype 'a rows_result = QueryFailed string | Rows "(string + 'a) list" go_error

text \<open>The fallible calls of \<^verbatim>\<open>database/sql\<close> that carry no data; statements are named by
  the comment that opens their SQL text (or by their first words).\<close>

datatype db_call =
    GetConnection
  | GetTransaction
  | Begin
  | Exec string
  | Commit string

section \<open>Profile summaries\<close>

text \<open>\<^verbatim>\<open>h.GetLink(rel, title, itemType, id)\<close> is kept as a constructor.\<close>

datatype LinkType = GetLink string string string int

text \<open>
  \<^verbatim>\<open>ProfileSummaryType\<close>; the fields carry the prefix \<open>ps_\<close> because several structs of
  the package share the names \<^verbatim>\<open>Id\<close> and \<^verbatim>\<open>SiteId\<close>. An \<^verbatim>\<open>sql.NullString\<close> or
  \<^verbatim>\<open>sql.NullInt64\<close> is an option (\<open>None\<close> when \<^verbatim>\<open>Valid\<close> is false).
\<close>

record ProfileSummaryType =
  ps_Id :: int
  ps_SiteId :: int
  ps_UserId :: int
  ps_ProfileName :: string
  ps_Visible :: bool
  ps_AvatarUrlNullable :: "string option"
  ps_AvatarUrl :: string
  ps_AvatarIdNullable :: "int option"
  ps_AvatarId :: int
  ps_Meta_Links :: "LinkType list"

definition ProfileSummaryType0 :: ProfileSummaryType where
  "ProfileSummaryType0 = \<lparr> ps_Id = 0, ps_SiteId = 0, ps_UserId = 0, ps_ProfileName = [],
     ps_Visible = False, ps_AvatarUrlNullable = None, ps_AvatarUrl = [],
     ps_AvatarIdNullable = None, ps_AvatarId = 0, ps_Meta_Links = [] \<rparr>"

text \<open>The seven columns that the query of \<^verbatim>\<open>GetProfileSummary\<close> scans.\<close>

record ProfileSummaryRow =
  col_profile_id :: int
  col_site_id :: int
  col_user_id :: int
  col_profile_name :: string
  col_is_visible :: bool
  col_avatar_url :: "string option"
  col_avatar_id :: "int option"

record ProfileSearchOptions =
  OrderByCommentCount :: bool
  IsFollowing :: bool
  IsOnline :: bool
  StartsWith :: string
  so_ProfileId :: int

record ProfileSummaryRequest =
  Item :: ProfileSummaryType
  Err :: go_error
  Status :: int
  Seq :: int

section \<open>The scoped cache\<close>

datatype scope = CacheDetail | CacheSummary | CacheCounts | CacheProfileIds

text \<open>The values of \<^verbatim>\<open>h.ItemTypes\<close> for microcosms, profiles and events, as the SQL of
  the package uses them (\<^verbatim>\<open>item_type_id = 2\<close>, \<open>3\<close> and \<open>9\<close>).\<close>

definition ItemTypeMicrocosm :: int where [simp]: "ItemTypeMicrocosm = 2"
definition ItemTypeProfile :: int where [simp]: "ItemTypeProfile = 3"
definition ItemTypeEvent :: int where [simp]: "ItemTypeEvent = 9"

text \<open>
  Modelled from the spec: the key templates \<^verbatim>\<open>mcProfileKeys\<close> and \<^verbatim>\<open>mcEventKeys\<close> are
  not part of the sources. The spec makes a key the composite of entity kind, scope and
  numeric identifier, unique per triple, or a free-form string for special keys; so a key
  is a constructor applied to the triple, or a named key.
\<close>

datatype cache_key = ItemKey int scope int | NamedKey string

definition mcProfileKeys :: "scope \<Rightarrow> int \<Rightarrow> cache_key" where
  "mcProfileKeys s i = ItemKey ItemTypeProfile s i"

definition mcEventKeys :: "scope \<Rightarrow> int \<Rightarrow> cache_key" where
  "mcEventKeys s i = ItemKey ItemTypeEvent s i"


section \<open>Profiles and events as the package declares them\<close>

text \<open>
  A \<^verbatim>\<open>time.Time\<close> is a number of seconds, zero for the zero time. A \<^verbatim>\<open>float64\<close> is
  its 64-bit pattern: the code embedded here stores, scans and formats coordinates and
  never computes with them. \<^verbatim>\<open>CommentSummaryType\<close> and \<^verbatim>\<open>LastComment\<close> are declared
  outside the sources; what the code reads of them is kept.
\<close>

type_synonym go_time = int
type_synonym float64 = "64 word"

datatype CommentSummaryType = CommentSummary int

record LastComment =
  lc_Id :: int
  lc_CreatedById :: int
  lc_CreatedBy :: "ProfileSummaryType option"
  lc_Valid :: bool

record ProfileType =
  p_Id :: int
  p_SiteId :: int
  p_UserId :: int
  p_Email :: string
  p_ProfileName :: string
  p_GenderNullable :: "string option"
  p_Gender :: string
  p_Visible :: bool
  p_StyleId :: int
  p_ItemCount :: int
  p_CommentCount :: int
  p_ProfileComment :: "CommentSummaryType option"
  p_Created :: go_time
  p_LastActive :: go_time
  p_AvatarUrlNullable :: "string option"
  p_AvatarUrl :: string
  p_AvatarIdNullable :: "int option"
  p_AvatarId :: int
  p_Meta_Links :: "LinkType list"

definition ProfileType0 :: ProfileType where
  "ProfileType0 = \<lparr> p_Id = 0, p_SiteId = 0, p_UserId = 0, p_Email = [], p_ProfileName = [],
     p_GenderNullable = None, p_Gender = [], p_Visible = False, p_StyleId = 0,
     p_ItemCount = 0, p_CommentCount = 0, p_ProfileComment = None, p_Created = 0,
     p_LastActive = 0, p_AvatarUrlNullable = None, p_AvatarUrl = [],
     p_AvatarIdNullable = None, p_AvatarId = 0, p_Meta_Links = [] \<rparr>"

text \<open>The row of the query of \<^verbatim>\<open>GetProfile\<close>: the scanned struct and the
  \<^verbatim>\<open>profile_comment_id\<close> column, which is scanned into a local variable.\<close>

type_synonym ProfileRow = "ProfileType \<times> int"

record Flags =
  Sticky :: bool
  Open :: bool
  Visible :: bool
  Moderated :: bool
  Deleted :: bool
  Attending :: bool

definition Flags0 :: Flags where
  "Flags0 = \<lparr> Sticky = False, Open = False, Visible = False, Moderated = False,
     Deleted = False, Attending = False \<rparr>"

text \<open>The \<^verbatim>\<open>Meta\<close> block of an event detail (\<open>em_\<close>) and of an event summary (\<open>sm_\<close>).\<close>

record EventMeta =
  em_Created :: go_time
  em_CreatedById :: int
  em_CreatedBy :: "ProfileSummaryType option"
  em_EditedNullable :: "go_time option"
  em_Edited :: string
  em_EditedByNullable :: "int option"
  em_EditedBy :: "ProfileSummaryType option"
  em_EditReasonNullable :: "string option"
  em_EditReason :: string
  em_Flags :: Flags
  em_Links :: "LinkType list"

definition EventMeta0 :: EventMeta where
  "EventMeta0 = \<lparr> em_Created = 0, em_CreatedById = 0, em_CreatedBy = None,
     em_EditedNullable = None, em_Edited = [], em_EditedByNullable = None, em_EditedBy = None,
     em_EditReasonNullable = None, em_EditReason = [], em_Flags = Flags0, em_Links = [] \<rparr>"

record EventType =
  e_Id :: int
  e_MicrocosmId :: int
  e_Title :: string
  e_WhenNullable :: "go_time option"
  e_When :: string
  e_Duration :: int
  e_Where :: string
  e_WhereNullable :: "string option"
  e_Lat :: float64
  e_Lon :: float64
  e_North :: float64
  e_East :: float64
  e_South :: float64
  e_West :: float64
  e_Status :: string
  e_RSVPLimit :: int
  e_RSVPAttending :: int
  e_RSVPSpaces :: int
  e_Meta :: EventMeta

definition EventType0 :: EventType where
  "EventType0 = \<lparr> e_Id = 0, e_MicrocosmId = 0, e_Title = [], e_WhenNullable = None,
     e_When = [], e_Duration = 0, e_Where = [], e_WhereNullable = None, e_Lat = 0, e_Lon = 0,
     e_North = 0, e_East = 0, e_South = 0, e_West = 0, e_Status = [], e_RSVPLimit = 0,
     e_RSVPAttending = 0, e_RSVPSpaces = 0, e_Meta = EventMeta0 \<rparr>"

record SummaryMeta =
  sm_Created :: go_time
  sm_CreatedById :: int
  sm_CreatedBy :: "ProfileSummaryType option"
  sm_Flags :: Flags
  sm_Links :: "LinkType list"

definition SummaryMeta0 :: SummaryMeta where
  "SummaryMeta0 = \<lparr> sm_Created = 0, sm_CreatedById = 0, sm_CreatedBy = None,
     sm_Flags = Flags0, sm_Links = [] \<rparr>"

record EventSummaryType =
  es_Id :: int
  es_MicrocosmId :: int
  es_Title :: string
  es_CommentCount :: int
  es_ViewCount :: int
  es_LastComment :: "LastComment option"
  es_WhenNullable :: "go_time option"
  es_When :: string
  es_Duration :: int
  es_WhereNullable :: "string option"
  es_Where :: string
  es_Lat :: float64
  es_Lon :: float64
  es_North :: float64
  es_East :: float64
  es_South :: float64
  es_West :: float64
  es_Status :: string
  es_RSVPLimit :: int
  es_RSVPAttending :: int
  es_RSVPSpaces :: int
  es_Meta :: SummaryMeta

definition EventSummaryType0 :: EventSummaryType where
  "EventSummaryType0 = \<lparr> es_Id = 0, es_MicrocosmId = 0, es_Title = [], es_CommentCount = 0,
     es_ViewCount = 0, es_LastComment = None, es_WhenNullable = None, es_When = [],
     es_Duration = 0, es_WhereNullable = None, es_Where = [], es_Lat = 0, es_Lon = 0,
     es_North = 0, es_East = 0, es_South = 0, es_West = 0, es_Status = [], es_RSVPLimit = 0,
     es_RSVPAttending = 0, es_RSVPSpaces = 0, es_Meta = SummaryMeta0 \<rparr>"

text \<open>What the cache stores: the \<^verbatim>\<open>interface{}\<close> values the package puts into it.\<close>

datatype cache_value =
    VProfile ProfileType
  | VProfileSummary ProfileSummaryType
  | VEvent EventType
  | VEventSummary EventSummaryType
  | VInt64 int
  | VInt64Slice "int list"


section \<open>The world a request runs in\<close>

text \<open>
  The tables that the embedded functions write and a claim counts: the rows of
  \<^verbatim>\<open>ignores\<close> (profile, item type, item), the rows that \<^verbatim>\<open>Insert\<close> adds to
  \<^verbatim>\<open>events\<close>, the next values of the identifier sequences of events and profiles,
  and the item counter of each microcosm. Every other statement of the source is a step
  that may fail: the rows it changes are read back only through the queries of the world.
\<close>

record tables =
  ignores_tbl :: "(int \<times> int \<times> int) list"
  events_tbl :: "EventType list"
  events_seq :: int
  profiles_seq :: int
  microcosm_item_count :: "int \<Rightarrow> int"

text \<open>
  Functions of Go's library and of packages outside the sources that the embedded code
  calls and that compute a value from their argument only: the sanitiser behind
  \<^verbatim>\<open>SanitiseText\<close>, \<^verbatim>\<open>ShoutToWhisper\<close>, \<^verbatim>\<open>h.Md5sum\<close>, \<^verbatim>\<open>time.Parse\<close> with
  the layout RFC3339, \<^verbatim>\<open>Time.Format\<close> with RFC3339Nano, \<^verbatim>\<open>Time.String\<close>, the verb
  \<^verbatim>\<open>%b\<close> of \<^verbatim>\<open>fmt\<close> on a \<^verbatim>\<open>float64\<close>, \<^verbatim>\<open>Flags.SetVisible\<close>,
  \<^verbatim>\<open>strings.ToLower\<close>, and the constant \<^verbatim>\<open>h.ApiTypeFile\<close>.
\<close>

text \<open>\<^verbatim>\<open>UserType\<close> and \<^verbatim>\<open>FileMetadataType\<close>, as far as the embedded code reads them.\<close>

record UserType =
  u_ID :: int
  u_Email :: string

record FileMetadataType =
  AttachmentMetaId :: int
  FileHash :: string
  FileExt :: string

record helpers =
  SanitiseText :: "string \<Rightarrow> string"
  ShoutToWhisper :: "string \<Rightarrow> string"
  Md5sum :: "string \<Rightarrow> string"
  time_Parse :: "string \<Rightarrow> string + go_time"
  time_Format :: "go_time \<Rightarrow> string"
  time_String :: "go_time \<Rightarrow> string"
  fmt_b :: "float64 \<Rightarrow> string"
  SetVisible :: "Flags \<Rightarrow> Flags"
  ToLower :: "string \<Rightarrow> string"
  ApiTypeFile :: string

text \<open>
  What a request did to the shared services, in order: a transaction that committed (named
  by the statement it belongs to), a purge of every scope of an item, a purge of one scope,
  and a purge handed to a new goroutine (\<^verbatim>\<open>go PurgeCache(...)\<close>), which has not run when
  the function returns.
\<close>

datatype effect =
    Committed string
  | Purged int int
  | PurgedScope scope int int
  | GoPurged int int


text \<open>
  The state that the embedded functions read and write: the entries of the shared cache
  with their expiry deadlines, whether the cache's backing service answers, the clock (in
  seconds), the package's cache lifetime \<^verbatim>\<open>mcTtl\<close> (a constant declared outside the
  sources), which calls of the database layer fail, and the answer of the data store to
  each query of the source.
\<close>

record world =
  cache :: "cache_key \<Rightarrow> (cache_value \<times> nat) option"
  cache_up :: bool
  clock :: nat
  mcTtl :: nat
  faults :: "db_call \<Rightarrow> go_error"
  q_GetProfileSummary :: "int \<Rightarrow> int \<Rightarrow> ProfileSummaryRow query_result"
  q_GetProfiles_count :: "int \<Rightarrow> ProfileSearchOptions \<Rightarrow> int \<Rightarrow> int \<Rightarrow> int query_result"
  q_GetProfiles :: "int \<Rightarrow> ProfileSearchOptions \<Rightarrow> int \<Rightarrow> int \<Rightarrow> int rows_result"
  q_GetIgnored :: "int \<Rightarrow> int \<Rightarrow> int \<Rightarrow> (int \<times> int \<times> int \<times> int) rows_result"
  q_GetProfile :: "int \<Rightarrow> int \<Rightarrow> ProfileRow query_result"
  q_GetEvent :: "int \<Rightarrow> int \<Rightarrow> EventType query_result"
  q_GetEventSummary :: "int \<Rightarrow> EventSummaryType query_result"
  q_GetEvents :: "int \<Rightarrow> int \<Rightarrow> bool \<Rightarrow> int \<Rightarrow> int \<Rightarrow> (int \<times> int \<times> bool) rows_result"
  q_attendees :: "int \<Rightarrow> int rows_result"
  GetCommentSummary :: "int \<Rightarrow> int \<Rightarrow> CommentSummaryType \<times> int \<times> go_error"
  GetLastComment :: "int \<Rightarrow> int \<Rightarrow> LastComment \<times> int \<times> go_error"
  GetMicrocosmTitle :: "int \<Rightarrow> string"
  GetMicrocosmSummary :: "int \<Rightarrow> int \<Rightarrow> int \<Rightarrow> int \<times> go_error"
  q_IsProfileNameTaken :: "int \<Rightarrow> int \<Rightarrow> string \<Rightarrow> (string \<times> bool) rows_result"
  reservedProfileNames :: "(string \<times> string) list"
  GetUser :: "int \<Rightarrow> UserType \<times> int \<times> go_error"
  GetProfileOptionsDefaults :: "int \<Rightarrow> int \<times> go_error"
  ProfileOptions_Insert :: "int \<Rightarrow> int \<times> go_error"
  StoreGravatar :: "string \<Rightarrow> FileMetadataType \<times> int \<times> go_error"
  Attachment_Insert :: "int \<Rightarrow> FileMetadataType \<Rightarrow> int \<times> int \<times> go_error"
  ItemTypes :: "string \<Rightarrow> int option"
  GetItemTypeFromInt :: "int \<Rightarrow> string + string"
  lib :: helpers
  db :: tables
  log :: "effect list"

subsection \<open>Cache operations\<close>

text \<open>
  Modelled from the spec: the package \<^verbatim>\<open>cache\<close> is not part of the sources. Following
  the spec's contract of ScopedCache, a read finds an entry when the backing service
  answers, the key is present and its deadline has not passed; a typed read of an entry
  of another shape is a miss; a write overwrites unconditionally with a deadline of now
  plus the lifetime, and is a no-op when the service does not answer. The type assertion
  \<^verbatim>\<open>val.(T)\<close> that follows \<^verbatim>\<open>c.CacheGet(key, T{})\<close> in the source is part of the
  typed read here: under this contract it cannot fail.
\<close>

definition cache_read :: "cache_key \<Rightarrow> world \<Rightarrow> cache_value option" where
  "cache_read k w =
     (if cache_up w then
        (case cache w k of
           None \<Rightarrow> None
         | Some (v, deadline) \<Rightarrow> if clock w < deadline then Some v else None)
      else None)"

definition CacheGet_ProfileSummaryType :: "cache_key \<Rightarrow> world \<Rightarrow> ProfileSummaryType option" where
  "CacheGet_ProfileSummaryType k w =
     (case cache_read k w of Some (VProfileSummary m) \<Rightarrow> Some m | _ \<Rightarrow> None)"

definition CacheGet_ProfileType :: "cache_key \<Rightarrow> world \<Rightarrow> ProfileType option" where
  "CacheGet_ProfileType k w =
     (case cache_read k w of Some (VProfile m) \<Rightarrow> Some m | _ \<Rightarrow> None)"

definition CacheGet_EventType :: "cache_key \<Rightarrow> world \<Rightarrow> EventType option" where
  "CacheGet_EventType k w =
     (case cache_read k w of Some (VEvent m) \<Rightarrow> Some m | _ \<Rightarrow> None)"

definition CacheGet_EventSummaryType :: "cache_key \<Rightarrow> world \<Rightarrow> EventSummaryType option" where
  "CacheGet_EventSummaryType k w =
     (case cache_read k w of Some (VEventSummary m) \<Rightarrow> Some m | _ \<Rightarrow> None)"

definition CacheGetInt64 :: "cache_key \<Rightarrow> world \<Rightarrow> int \<times> bool" where
  "CacheGetInt64 k w =
     (case cache_read k w of Some (VInt64 i) \<Rightarrow> (i, True) | _ \<Rightarrow> (0, False))"

definition CacheGetInt64Slice :: "cache_key \<Rightarrow> world \<Rightarrow> int list \<times> bool" where
  "CacheGetInt64Slice k w =
     (case cache_read k w of Some (VInt64Slice xs) \<Rightarrow> (xs, True) | _ \<Rightarrow> ([], False))"

definition CacheSet :: "cache_key \<Rightarrow> cache_value \<Rightarrow> nat \<Rightarrow> world \<Rightarrow> world" where
  "CacheSet k v ttl w =
     (if cache_up w then w\<lparr>cache := (cache w)(k \<mapsto> (v, clock w + ttl))\<rparr> else w)"

definition CacheSetInt64 :: "cache_key \<Rightarrow> int \<Rightarrow> nat \<Rightarrow> world \<Rightarrow> world" where
  "CacheSetInt64 k i ttl w = CacheSet k (VInt64 i) ttl w"

definition CacheSetInt64Slice :: "cache_key \<Rightarrow> int list \<Rightarrow> nat \<Rightarrow> world \<Rightarrow> world" where
  "CacheSetInt64Slice k xs ttl w = CacheSet k (VInt64Slice xs) ttl w"

subsection \<open>Pagination helpers\<close>

text \<open>
  Modelled from the spec: \<^verbatim>\<open>h.GetPageCount\<close> and \<^verbatim>\<open>h.GetMaxOffset\<close> are declared in
  the package \<^verbatim>\<open>helpers\<close>, which is not part of the sources. The spec's Paginator gives
  \<open>pages = ceil(total/limit)\<close> and \<open>maxOffset = max(0, (pages-1)*limit)\<close>.
\<close>

definition GetPageCount :: "int \<Rightarrow> int \<Rightarrow> int" where
  "GetPageCount total' limit = \<lceil>real_of_int total' / real_of_int limit\<rceil>"

definition GetMaxOffset :: "int \<Rightarrow> int \<Rightarrow> int" where
  "GetMaxOffset total' limit = max 0 ((GetPageCount total' limit - 1) * limit)"

section \<open>GetProfileSummary and the fan-out of GetProfiles\<close>

text \<open>The struct that \<^verbatim>\<open>GetProfileSummary\<close> builds from a row: the scanned columns,
  the avatar fields copied from their nullable columns when these are valid, and the two
  links.\<close>

definition scan_ProfileSummary :: "ProfileSummaryRow \<Rightarrow> ProfileSummaryType" where
  "scan_ProfileSummary r =
     (let m = ProfileSummaryType0
            \<lparr> ps_Id := col_profile_id r, ps_SiteId := col_site_id r,
              ps_UserId := col_user_id r, ps_ProfileName := col_profile_name r,
              ps_Visible := col_is_visible r, ps_AvatarUrlNullable := col_avatar_url r,
              ps_AvatarIdNullable := col_avatar_id r \<rparr>;
          m = (case ps_AvatarIdNullable m of Some v \<Rightarrow> m\<lparr>ps_AvatarId := v\<rparr> | None \<Rightarrow> m);
          m = (case ps_AvatarUrlNullable m of Some v \<Rightarrow> m\<lparr>ps_AvatarUrl := v\<rparr> | None \<Rightarrow> m)
      in m\<lparr>ps_Meta_Links := [GetLink ''self'' [] ''profile'' (ps_Id m),
                              GetLink ''site'' [] ''site'' (ps_SiteId m)]\<rparr>)"

definition GetProfileSummary ::
  "int \<Rightarrow> int \<Rightarrow> world \<Rightarrow> (ProfileSummaryType \<times> int \<times> go_error) \<times> world" where
  "GetProfileSummary siteId id' w =
     (if id' = 0 then
        ((ProfileSummaryType0, StatusNotFound, Some ''Profile not found''), w)
      else
        let mcKey = mcProfileKeys CacheSummary id' in
        (case CacheGet_ProfileSummaryType mcKey w of
           Some m \<Rightarrow>
             if ps_SiteId m \<noteq> siteId then
               ((ProfileSummaryType0, StatusNotFound, Some ''Not found''), w)
             else ((m, StatusOK, None), w)
         | None \<Rightarrow>
             (case faults w GetConnection of
                Some err \<Rightarrow> ((ProfileSummaryType0, StatusInternalServerError, Some err), w)
              | None \<Rightarrow>
                  (case q_GetProfileSummary w siteId id' of
                     ErrNoRows \<Rightarrow>
                       ((ProfileSummaryType0, StatusNotFound,
                         Some (''Resource with profile ID '' @ fmt_d id' @ '' not found'')), w)
                   | QueryError err \<Rightarrow>
                       ((ProfileSummaryType0, StatusInternalServerError,
                         Some (''Database query failed: '' @ err)), w)
                   | Row r \<Rightarrow>
                       let m = scan_ProfileSummary r
                       in ((m, StatusOK, None),
                           CacheSet mcKey (VProfileSummary m) (mcTtl w) w)))))"

definition HandleProfileSummaryRequest ::
  "int \<Rightarrow> int \<Rightarrow> int \<Rightarrow> world \<Rightarrow> ProfileSummaryRequest \<times> world" where
  "HandleProfileSummaryRequest siteId id' seq w =
     (case GetProfileSummary siteId id' w of
        ((item, status, err), w') \<Rightarrow>
          (\<lparr>Item = item, Err = err, Status = status, Seq = seq\<rparr>, w'))"

text \<open>
  \<^verbatim>\<open>GetProfiles\<close> starts one goroutine per identifier, tagged with its position, and
  receives as many responses as there are identifiers from one unbuffered channel. The
  scheduler's choices are two parameters: \<open>sched\<close>, the order in which the units run
  (unit \<open>k\<close> handles \<open>ids ! k\<close> with \<open>Seq = k\<close>; a unit runs as one step), and
  \<open>arrival\<close>, the order in which the channel delivers what the units sent, as positions
  in the sequence of sends. Go runs every unit once and delivers every response once: both
  are permutations of \<open>[0..<length ids]\<close>, which the theorems assume.
\<close>

fun fan_out :: "int \<Rightarrow> int list \<Rightarrow> nat list \<Rightarrow> world \<Rightarrow> ProfileSummaryRequest list \<times> world" where
  "fan_out siteId ids [] w = ([], w)"
| "fan_out siteId ids (k # sched) w =
     (case HandleProfileSummaryRequest siteId (ids ! k) (int k) w of
        (r, w1) \<Rightarrow> (case fan_out siteId ids sched w1 of (rs, w2) \<Rightarrow> (r # rs, w2)))"

definition receive :: "'a list \<Rightarrow> nat list \<Rightarrow> 'a list" where
  "receive sent arrival = map (\<lambda>j. sent ! j) arrival"

text \<open>The state in which unit \<open>i\<close> runs under a schedule.\<close>

fun state_before :: "int \<Rightarrow> int list \<Rightarrow> nat list \<Rightarrow> world \<Rightarrow> nat \<Rightarrow> world" where
  "state_before siteId ids [] w i = w"
| "state_before siteId ids (k # sched) w i =
     (if k = i then w
      else state_before siteId ids sched
             (snd (HandleProfileSummaryRequest siteId (ids ! k) (int k) w)) i)"

text \<open>The loop \<^verbatim>\<open>for _, resp := range resps { if resp.Err != nil { return ... } }\<close>.\<close>

fun first_error :: "ProfileSummaryRequest list \<Rightarrow> (int \<times> string) option" where
  "first_error [] = None"
| "first_error (resp # resps) =
     (case Err resp of Some err \<Rightarrow> Some (Status resp, err) | None \<Rightarrow> first_error resps)"

text \<open>The loop over \<^verbatim>\<open>rows.Next()\<close> that appends each scanned identifier.\<close>

fun scan_ids :: "(string + int) list \<Rightarrow> int list \<Rightarrow> string + int list" where
  "scan_ids [] ids = Inr ids"
| "scan_ids (Inl err # rows) ids = Inl err"
| "scan_ids (Inr id' # rows) ids = scan_ids rows (ids @ [id'])"

text \<open>
  The part of \<^verbatim>\<open>GetProfiles\<close> from the fan-out on. \<^verbatim>\<open>sort.Sort\<close> with
  \<^verbatim>\<open>ProfileSummaryRequestBySeq\<close> orders by \<open>Seq\<close>; it is \<open>sort_key Seq\<close> here.
\<close>

definition GetProfiles_gather ::
  "int \<Rightarrow> int list \<Rightarrow> int \<Rightarrow> int \<Rightarrow> int \<Rightarrow> nat list \<Rightarrow> nat list \<Rightarrow> world \<Rightarrow>
   (ProfileSummaryType list \<times> int \<times> int \<times> int \<times> go_error) \<times> world" where
  "GetProfiles_gather siteId ids total' limit offset sched arrival w =
     (case fan_out siteId ids sched w of
        (sent, w1) \<Rightarrow>
          let resps = receive sent arrival in
          (case first_error resps of
             Some (status, err) \<Rightarrow> (([], 0, 0, status, Some err), w1)
           | None \<Rightarrow>
               let ems = map Item (sort_key Seq resps);
                   pages = GetPageCount total' limit;
                   maxOffset = GetMaxOffset total' limit
               in if offset > maxOffset then
                    (([], 0, 0, StatusBadRequest,
                      Some (''not enough records, offset ('' @ fmt_d offset
                            @ '') would return an empty page.'')), w1)
                  else ((ems, total', pages, StatusOK, None), w1)))"

definition GetProfiles ::
  "int \<Rightarrow> ProfileSearchOptions \<Rightarrow> int \<Rightarrow> int \<Rightarrow> nat list \<Rightarrow> nat list \<Rightarrow> world \<Rightarrow>
   (ProfileSummaryType list \<times> int \<times> int \<times> int \<times> go_error) \<times> world" where
  "GetProfiles siteId so limit offset sched arrival w =
     (case faults w GetConnection of
        Some err \<Rightarrow> (([], 0, 0, StatusInternalServerError, Some err), w)
      | None \<Rightarrow>
     (case q_GetProfiles_count w siteId so limit offset of
        ErrNoRows \<Rightarrow> (([], 0, 0, StatusInternalServerError, Some ''Database query failed''), w)
      | QueryError err \<Rightarrow>
          (([], 0, 0, StatusInternalServerError, Some ''Database query failed''), w)
      | Row total' \<Rightarrow>
     (case q_GetProfiles w siteId so limit offset of
        QueryFailed err \<Rightarrow>
          (([], 0, 0, StatusInternalServerError, Some ''Database query failed''), w)
      | Rows rows rows_err \<Rightarrow>
     (case scan_ids rows [] of
        Inl err \<Rightarrow> (([], 0, 0, StatusInternalServerError, Some ''Row parsing error''), w)
      | Inr ids \<Rightarrow>
     (case rows_err of
        Some err \<Rightarrow> (([], 0, 0, StatusInternalServerError, Some ''Error fetching rows''), w)
      | None \<Rightarrow> GetProfiles_gather siteId ids total' limit offset sched arrival w)))))"


section \<open>Transactions\<close>

text \<open>
  A transaction works on its own copy of the tables. A statement that fails leaves the
  transaction failed; \<^verbatim>\<open>Commit\<close> stores the copy unless the commit itself fails or the
  transaction has failed, and a deferred \<^verbatim>\<open>Rollback\<close> drops a copy that was not stored.
\<close>

record tx =
  tx_db :: tables
  tx_failed :: bool

definition tx_Begin :: "world \<Rightarrow> tx" where
  "tx_Begin w = \<lparr> tx_db = db w, tx_failed = False \<rparr>"

definition tx_Commit :: "string \<Rightarrow> tx \<Rightarrow> world \<Rightarrow> go_error \<times> world" where
  "tx_Commit name t w =
     (case faults w (Commit name) of
        Some err \<Rightarrow> (Some err, w)
      | None \<Rightarrow>
          if tx_failed t then (Some ''current transaction is aborted'', w)
          else (None, w\<lparr> db := tx_db t, log := log w @ [Committed name] \<rparr>))"

section \<open>Ignores\<close>

record 'a IgnoreType =
  ProfileId :: int
  ItemTypeId :: int
  ItemType :: string
  ItemId :: int
  Item_ig :: "'a option"

definition IgnoreType_Validate :: "'a IgnoreType \<Rightarrow> world \<Rightarrow> (int \<times> go_error) \<times> 'a IgnoreType" where
  "IgnoreType_Validate m w =
     (if ProfileId m \<le> 0 then
        ((StatusBadRequest,
          Some (''profileId ('' @ [CHR 0x27] @ fmt_d (ProfileId m) @ [CHR 0x27]
                @ '') must be a positive integer.'')), m)
      else
        (case ItemTypes w (ItemType m) of
           None \<Rightarrow> ((StatusBadRequest, Some ''You must specify a valid item type''), m)
         | Some t \<Rightarrow>
             let m = m\<lparr>ItemTypeId := t\<rparr> in
             if ItemId m \<le> 0 then
               ((StatusBadRequest,
                 Some ''You must specify an Item ID this comment belongs to''), m)
             else ((StatusOK, None), m)))"

text \<open>The statement \<^verbatim>\<open>--Create Ignore\<close>: it fails when the data store says so or when
  the row is there already.\<close>

definition Exec_CreateIgnore :: "int \<times> int \<times> int \<Rightarrow> tx \<Rightarrow> world \<Rightarrow> go_error \<times> tx" where
  "Exec_CreateIgnore row t w =
     (case faults w (Exec ''--Create Ignore'') of
        Some err \<Rightarrow> (Some err, t\<lparr>tx_failed := True\<rparr>)
      | None \<Rightarrow>
          if row \<in> set (ignores_tbl (tx_db t)) then
            (Some ''duplicate key value violates unique constraint'', t\<lparr>tx_failed := True\<rparr>)
          else (None, t\<lparr>tx_db := (tx_db t)\<lparr>ignores_tbl := ignores_tbl (tx_db t) @ [row]\<rparr>\<rparr>))"

definition Exec_DeleteIgnore :: "int \<times> int \<times> int \<Rightarrow> tx \<Rightarrow> world \<Rightarrow> go_error \<times> tx" where
  "Exec_DeleteIgnore row t w =
     (case faults w (Exec ''--Delete Ignore'') of
        Some err \<Rightarrow> (Some err, t\<lparr>tx_failed := True\<rparr>)
      | None \<Rightarrow>
          (None, t\<lparr>tx_db := (tx_db t)\<lparr>ignores_tbl := removeAll row (ignores_tbl (tx_db t))\<rparr>\<rparr>))"

text \<open>
  \<^verbatim>\<open>Update\<close> and \<^verbatim>\<open>Delete\<close> call \<^verbatim>\<open>tx.Exec\<close> as a statement, so its error is
  dropped; the test \<^verbatim>\<open>if err == nil\<close> that follows reads the variable that still holds
  the \<^verbatim>\<open>nil\<close> of \<^verbatim>\<open>h.GetTransaction()\<close>, and the result of \<^verbatim>\<open>tx.Commit()\<close> is
  dropped too.
\<close>

definition IgnoreType_Update ::
  "'a IgnoreType \<Rightarrow> world \<Rightarrow> (int \<times> go_error) \<times> 'a IgnoreType \<times> world" where
  "IgnoreType_Update m w =
     (case IgnoreType_Validate m w of
        ((status, Some err), m1) \<Rightarrow> ((status, Some err), m1, w)
      | ((status, None), m1) \<Rightarrow>
          (case faults w GetTransaction of
             Some err \<Rightarrow> ((StatusInternalServerError, Some err), m1, w)
           | None \<Rightarrow>
               let err = (None :: go_error);
                   t = tx_Begin w;
                   t = snd (Exec_CreateIgnore (ProfileId m1, ItemTypeId m1, ItemId m1) t w);
                   w1 = (if err = None then snd (tx_Commit ''Ignore'' t w) else w)
               in ((StatusOK, None), m1, w1)))"

definition IgnoreType_Delete ::
  "'a IgnoreType \<Rightarrow> world \<Rightarrow> (int \<times> go_error) \<times> 'a IgnoreType \<times> world" where
  "IgnoreType_Delete m w =
     (case IgnoreType_Validate m w of
        ((status, Some err), m1) \<Rightarrow> ((status, Some err), m1, w)
      | ((status, None), m1) \<Rightarrow>
          (case faults w GetTransaction of
             Some err \<Rightarrow> ((StatusInternalServerError, Some err), m1, w)
           | None \<Rightarrow>
               let err = (None :: go_error);
                   t = tx_Begin w;
                   t = snd (Exec_DeleteIgnore (ProfileId m1, ItemTypeId m1, ItemId m1) t w);
                   w1 = (if err = None then snd (tx_Commit ''Ignore'' t w) else w)
               in ((StatusOK, None), m1, w1)))"

subsection \<open>GetIgnored\<close>

record 'a SummaryContainerRequest =
  sc_Summary :: 'a
  sc_Err :: go_error
  sc_Status :: int
  sc_Seq :: int

text \<open>
  Modelled from the spec: \<^verbatim>\<open>HandleSummaryContainerRequest\<close>, its request type and the
  per-kind summary fetcher it calls are declared outside the sources. By the spec's
  Aggregator, a unit of work calls the summary fetcher for its item and tags the result
  with its position \<open>Seq\<close>. The fetcher is the parameter \<open>fetch\<close>: given site, item type,
  item and profile it returns a summary, a status and an error, and may write the cache.
\<close>

type_synonym 'a fetcher =
  "int \<Rightarrow> int \<Rightarrow> int \<Rightarrow> int \<Rightarrow> world \<Rightarrow> ('a \<times> int \<times> go_error) \<times> world"

definition HandleSummaryContainerRequest ::
  "'a fetcher \<Rightarrow> int \<Rightarrow> int \<Rightarrow> int \<Rightarrow> int \<Rightarrow> int \<Rightarrow> world \<Rightarrow> 'a SummaryContainerRequest \<times> world" where
  "HandleSummaryContainerRequest fetch siteId itemTypeId itemId profileId seq w =
     (case fetch siteId itemTypeId itemId profileId w of
        ((item, status, err), w') \<Rightarrow>
          (\<lparr>sc_Summary = item, sc_Err = err, sc_Status = status, sc_Seq = seq\<rparr>, w'))"

fun fan_out_ignored ::
  "'a fetcher \<Rightarrow> int \<Rightarrow> 'b IgnoreType list \<Rightarrow> nat list \<Rightarrow> world \<Rightarrow>
   'a SummaryContainerRequest list \<times> world" where
  "fan_out_ignored fetch siteId ems [] w = ([], w)"
| "fan_out_ignored fetch siteId ems (k # sched) w =
     (case HandleSummaryContainerRequest fetch siteId (ItemTypeId (ems ! k)) (ItemId (ems ! k))
             (ProfileId (ems ! k)) (int k) w of
        (r, w1) \<Rightarrow>
          (case fan_out_ignored fetch siteId ems sched w1 of (rs, w2) \<Rightarrow> (r # rs, w2)))"

fun first_error_sc :: "'a SummaryContainerRequest list \<Rightarrow> (int \<times> string) option" where
  "first_error_sc [] = None"
| "first_error_sc (resp # resps) =
     (case sc_Err resp of
        Some err \<Rightarrow> Some (sc_Status resp, err)
      | None \<Rightarrow> first_error_sc resps)"

text \<open>The loop over \<^verbatim>\<open>rows.Next()\<close>: every row overwrites \<^verbatim>\<open>total\<close>.\<close>

fun scan_ignored ::
  "world \<Rightarrow> (string + int \<times> int \<times> int \<times> int) list \<Rightarrow> int \<Rightarrow> 'a IgnoreType list \<Rightarrow>
   (int \<times> string) + (int \<times> 'a IgnoreType list)" where
  "scan_ignored w [] total' ems = Inr (total', ems)"
| "scan_ignored w (Inl err # rows) total' ems =
     Inl (StatusInternalServerError, ''Row parsing error'')"
| "scan_ignored w (Inr (t, pid, tid, iid) # rows) total' ems =
     (case GetItemTypeFromInt w tid of
        Inl err \<Rightarrow> Inl (StatusInternalServerError, err)
      | Inr itemType \<Rightarrow>
          scan_ignored w rows t
            (ems @ [\<lparr>ProfileId = pid, ItemTypeId = tid, ItemType = itemType, ItemId = iid,
                     Item_ig = None\<rparr>]))"

definition GetIgnored_gather ::
  "'a fetcher \<Rightarrow> int \<Rightarrow> 'a IgnoreType list \<Rightarrow> int \<Rightarrow> int \<Rightarrow> nat list \<Rightarrow> nat list \<Rightarrow> world \<Rightarrow>
   ('a IgnoreType list \<times> int \<times> int \<times> int \<times> go_error) \<times> world" where
  "GetIgnored_gather fetch siteId ems total' pages sched arrival w =
     (case fan_out_ignored fetch siteId ems sched w of
        (sent, w1) \<Rightarrow>
          let resps = receive sent arrival in
          (case first_error_sc resps of
             Some (status, err) \<Rightarrow> (([], 0, 0, status, Some err), w1)
           | None \<Rightarrow>
               let resps = sort_key sc_Seq resps;
                   ems = map (\<lambda>(m, r). m\<lparr>Item_ig := Some (sc_Summary r)\<rparr>) (zip ems resps)
               in ((ems, total', pages, StatusOK, None), w1)))"

definition GetIgnored ::
  "'a fetcher \<Rightarrow> int \<Rightarrow> int \<Rightarrow> int \<Rightarrow> int \<Rightarrow> nat list \<Rightarrow> nat list \<Rightarrow> world \<Rightarrow>
   ('a IgnoreType list \<times> int \<times> int \<times> int \<times> go_error) \<times> world" where
  "GetIgnored fetch siteId profileId limit offset sched arrival w =
     (case faults w GetConnection of
        Some err \<Rightarrow> (([], 0, 0, StatusInternalServerError, Some err), w)
      | None \<Rightarrow>
     (case q_GetIgnored w profileId limit offset of
        QueryFailed err \<Rightarrow>
          (([], 0, 0, StatusInternalServerError, Some ''Database query failed''), w)
      | Rows rows rows_err \<Rightarrow>
     (case scan_ignored w rows 0 [] of
        Inl (status, err) \<Rightarrow> (([], 0, 0, status, Some err), w)
      | Inr (total', ems) \<Rightarrow>
     (case rows_err of
        Some err \<Rightarrow> (([], 0, 0, StatusInternalServerError, Some ''Error fetching rows''), w)
      | None \<Rightarrow>
          let pages = GetPageCount total' limit;
              maxOffset = GetMaxOffset total' limit
          in if offset > maxOffset then
               (([], 0, 0, StatusBadRequest,
                 Some (''not enough records, offset ('' @ fmt_d offset
                       @ '') would return an empty page.'')), w)
             else GetIgnored_gather fetch siteId ems total' pages sched arrival w))))"

section \<open>Events: reading\<close>

text \<open>The loop \<^verbatim>\<open>for _, Id := range attendeeIds { if profileId == Id { return true, nil } }\<close>.\<close>

fun is_among :: "int \<Rightarrow> int list \<Rightarrow> bool" where
  "is_among profileId [] = False"
| "is_among profileId (Id' # attendeeIds) =
     (if profileId = Id' then True else is_among profileId attendeeIds)"

text \<open>
  \<^verbatim>\<open>IsAttending\<close>. On a miss the rows are appended to the slice that the cache read
  returned; the error of \<^verbatim>\<open>rows.Scan\<close> is assigned and never read, so a row that fails
  to scan appends the zero identifier.
\<close>

definition IsAttending :: "int \<Rightarrow> int \<Rightarrow> world \<Rightarrow> (bool \<times> go_error) \<times> world" where
  "IsAttending profileId eventId w =
     (if profileId = 0 \<or> eventId = 0 then ((False, None), w)
      else
        let key = mcEventKeys CacheProfileIds eventId in
        (case CacheGetInt64Slice key w of
           (attendeeIds, ok) \<Rightarrow>
             if \<not> ok then
               (case faults w GetConnection of
                  Some err \<Rightarrow> ((False, Some err), w)
                | None \<Rightarrow>
                    (case q_attendees w eventId of
                       QueryFailed err \<Rightarrow> ((False, Some err), w)
                     | Rows rows rows_err \<Rightarrow>
                         let attendeeIds =
                               attendeeIds @ map (\<lambda>r. case r of Inl _ \<Rightarrow> 0 | Inr i \<Rightarrow> i) rows;
                             w1 = CacheSetInt64Slice key attendeeIds (mcTtl w) w
                         in ((is_among profileId attendeeIds, None), w1)))
             else ((is_among profileId attendeeIds, None), w)))"

definition EventType_GetAttending ::
  "EventType \<Rightarrow> int \<Rightarrow> world \<Rightarrow> (int \<times> go_error) \<times> EventType \<times> world" where
  "EventType_GetAttending m profileId w =
     (if profileId = 0 then ((StatusOK, None), m, w)
      else
        (case IsAttending profileId (e_Id m) w of
           ((attending, Some err), w1) \<Rightarrow> ((StatusInternalServerError, Some err), m, w1)
         | ((attending, None), w1) \<Rightarrow>
             ((StatusOK, None),
              m\<lparr>e_Meta := (e_Meta m)\<lparr>em_Flags := (em_Flags (e_Meta m))\<lparr>Attending := attending\<rparr>\<rparr>\<rparr>,
              w1)))"

definition EventSummaryType_GetAttending ::
  "EventSummaryType \<Rightarrow> int \<Rightarrow> world \<Rightarrow> (int \<times> go_error) \<times> EventSummaryType \<times> world" where
  "EventSummaryType_GetAttending m profileId w =
     (if profileId = 0 then ((StatusOK, None), m, w)
      else
        (case IsAttending profileId (es_Id m) w of
           ((attending, Some err), w1) \<Rightarrow> ((StatusInternalServerError, Some err), m, w1)
         | ((attending, None), w1) \<Rightarrow>
             ((StatusOK, None),
              m\<lparr>es_Meta := (es_Meta m)\<lparr>sm_Flags := (sm_Flags (es_Meta m))\<lparr>Attending := attending\<rparr>\<rparr>\<rparr>,
              w1)))"

definition EventType_FetchProfileSummaries ::
  "EventType \<Rightarrow> int \<Rightarrow> world \<Rightarrow> (int \<times> go_error) \<times> EventType \<times> world" where
  "EventType_FetchProfileSummaries m siteId w =
     (case GetProfileSummary siteId (em_CreatedById (e_Meta m)) w of
        ((profile, status, Some err), w1) \<Rightarrow> ((status, Some err), m, w1)
      | ((profile, status, None), w1) \<Rightarrow>
          let m = m\<lparr>e_Meta := (e_Meta m)\<lparr>em_CreatedBy := Some profile\<rparr>\<rparr> in
          (case em_EditedByNullable (e_Meta m) of
             None \<Rightarrow> ((StatusOK, None), m, w1)
           | Some editedBy \<Rightarrow>
               (case GetProfileSummary siteId editedBy w1 of
                  ((profile, status, Some err), w2) \<Rightarrow> ((status, Some err), m, w2)
                | ((profile, status, None), w2) \<Rightarrow>
                    ((StatusOK, None),
                     m\<lparr>e_Meta := (e_Meta m)\<lparr>em_EditedBy := Some profile\<rparr>\<rparr>, w2))))"

definition EventSummaryType_FetchProfileSummaries ::
  "EventSummaryType \<Rightarrow> int \<Rightarrow> world \<Rightarrow> (int \<times> go_error) \<times> EventSummaryType \<times> world" where
  "EventSummaryType_FetchProfileSummaries m siteId w =
     (case GetProfileSummary siteId (sm_CreatedById (es_Meta m)) w of
        ((profile, status, Some err), w1) \<Rightarrow> ((status, Some err), m, w1)
      | ((profile, status, None), w1) \<Rightarrow>
          let m = m\<lparr>es_Meta := (es_Meta m)\<lparr>sm_CreatedBy := Some profile\<rparr>\<rparr> in
          (case es_LastComment m of
             None \<Rightarrow> ((StatusOK, None), m, w1)
           | Some lastComment \<Rightarrow>
               (case GetProfileSummary siteId (lc_CreatedById lastComment) w1 of
                  ((profile, status, Some err), w2) \<Rightarrow> ((status, Some err), m, w2)
                | ((profile, status, None), w2) \<Rightarrow>
                    ((StatusOK, None),
                     m\<lparr>es_LastComment := Some (lastComment\<lparr>lc_CreatedBy := Some profile\<rparr>)\<rparr>,
                     w2))))"

text \<open>What \<^verbatim>\<open>GetEvent\<close> does to the scanned struct before it writes it to the cache.\<close>

definition fill_Event :: "EventType \<Rightarrow> world \<Rightarrow> EventType" where
  "fill_Event m w =
     (let meta = e_Meta m;
          meta = (case em_EditReasonNullable meta of
                    Some v \<Rightarrow> meta\<lparr>em_EditReason := v\<rparr> | None \<Rightarrow> meta);
          meta = (case em_EditedNullable meta of
                    Some t \<Rightarrow> meta\<lparr>em_Edited := time_Format (lib w) t\<rparr> | None \<Rightarrow> meta);
          m = m\<lparr>e_Meta := meta\<rparr>;
          m = (case e_WhenNullable m of
                 Some t \<Rightarrow> m\<lparr>e_When := time_Format (lib w) t\<rparr> | None \<Rightarrow> m);
          m = (case e_WhereNullable m of Some v \<Rightarrow> m\<lparr>e_Where := v\<rparr> | None \<Rightarrow> m)
      in m\<lparr>e_Meta := (e_Meta m)\<lparr>em_Links :=
             [GetLink ''self'' [] ''event'' (e_Id m),
              GetLink ''microcosm'' (GetMicrocosmTitle w (e_MicrocosmId m)) ''microcosm''
                (e_MicrocosmId m)]\<rparr>\<rparr>)"

text \<open>
  \<^verbatim>\<open>GetEvent\<close>. On a cache hit the cached struct goes through
  \<^verbatim>\<open>FetchProfileSummaries\<close> and \<^verbatim>\<open>GetAttending\<close> and is returned with status 0; the
  source carries the comment that the cached event is not verified to belong to the site.
\<close>

definition GetEvent :: "int \<Rightarrow> int \<Rightarrow> int \<Rightarrow> world \<Rightarrow> (EventType \<times> int \<times> go_error) \<times> world" where
  "GetEvent siteId id' profileId w =
     (if id' = 0 then ((EventType0, StatusNotFound, Some ''Event not found''), w)
      else
        let mcKey = mcEventKeys CacheDetail id' in
        (case CacheGet_EventType mcKey w of
           Some m \<Rightarrow>
             (case EventType_FetchProfileSummaries m siteId w of
                ((status, Some err), m1, w1) \<Rightarrow> ((EventType0, status, Some err), w1)
              | ((status, None), m1, w1) \<Rightarrow>
                  (case EventType_GetAttending m1 profileId w1 of
                     ((status, Some err), m2, w2) \<Rightarrow> ((EventType0, status, Some err), w2)
                   | ((status, None), m2, w2) \<Rightarrow> ((m2, 0, None), w2)))
         | None \<Rightarrow>
             (case faults w GetConnection of
                Some err \<Rightarrow> ((EventType0, StatusInternalServerError, Some err), w)
              | None \<Rightarrow>
                  (case q_GetEvent w siteId id' of
                     ErrNoRows \<Rightarrow> ((EventType0, StatusNotFound, Some ''Event not found''), w)
                   | QueryError err \<Rightarrow>
                       ((EventType0, StatusInternalServerError,
                         Some ''Database query failed''), w)
                   | Row r \<Rightarrow>
                       let m = fill_Event r w;
                           w0 = CacheSet mcKey (VEvent m) (mcTtl w) w
                       in (case EventType_FetchProfileSummaries m siteId w0 of
                             ((status, Some err), m1, w1) \<Rightarrow>
                               ((EventType0, status, Some err), w1)
                           | ((status, None), m1, w1) \<Rightarrow>
                               (case EventType_GetAttending m1 profileId w1 of
                                  ((status, Some err), m2, w2) \<Rightarrow>
                                    ((EventType0, status, Some err), w2)
                                | ((status, None), m2, w2) \<Rightarrow>
                                    ((m2, StatusOK, None), w2)))))))"

definition fill_EventSummary :: "EventSummaryType \<Rightarrow> world \<Rightarrow> EventSummaryType" where
  "fill_EventSummary m w =
     (let m = (case es_WhenNullable m of
                 Some t \<Rightarrow> m\<lparr>es_When := time_Format (lib w) t\<rparr> | None \<Rightarrow> m)
      in (case es_WhereNullable m of Some v \<Rightarrow> m\<lparr>es_Where := v\<rparr> | None \<Rightarrow> m))"

definition GetEventSummary ::
  "int \<Rightarrow> int \<Rightarrow> int \<Rightarrow> world \<Rightarrow> (EventSummaryType \<times> int \<times> go_error) \<times> world" where
  "GetEventSummary siteId id' profileId w =
     (if id' = 0 then ((EventSummaryType0, StatusNotFound, Some ''Event not found''), w)
      else
        let mcKey = mcEventKeys CacheSummary id' in
        (case CacheGet_EventSummaryType mcKey w of
           Some m \<Rightarrow>
             (case EventSummaryType_FetchProfileSummaries m siteId w of
                ((status, Some err), m1, w1) \<Rightarrow> ((EventSummaryType0, status, Some err), w1)
              | ((status, None), m1, w1) \<Rightarrow>
                  (case EventSummaryType_GetAttending m1 profileId w1 of
                     ((status, Some err), m2, w2) \<Rightarrow>
                       ((EventSummaryType0, status, Some err), w2)
                   | ((status, None), m2, w2) \<Rightarrow> ((m2, StatusOK, None), w2)))
         | None \<Rightarrow>
             (case faults w GetConnection of
                Some err \<Rightarrow> ((EventSummaryType0, StatusInternalServerError, Some err), w)
              | None \<Rightarrow>
                  (case q_GetEventSummary w id' of
                     ErrNoRows \<Rightarrow>
                       ((EventSummaryType0, StatusInternalServerError,
                         Some (''Event with ID '' @ fmt_d id' @ '' not found'')), w)
                   | QueryError err \<Rightarrow>
                       ((EventSummaryType0, StatusInternalServerError,
                         Some ''Database query failed''), w)
                   | Row r \<Rightarrow>
                       let m = fill_EventSummary r w in
                       (case GetLastComment w ItemTypeEvent (es_Id m) of
                          (lastComment, status, Some err) \<Rightarrow>
                            ((EventSummaryType0, status,
                              Some (''Error fetching last comment: '' @ err)), w)
                        | (lastComment, status, None) \<Rightarrow>
                            let m = (if lc_Valid lastComment
                                     then m\<lparr>es_LastComment := Some lastComment\<rparr> else m);
                                m = m\<lparr>es_Meta := (es_Meta m)\<lparr>sm_Links :=
                                      [GetLink ''self'' [] ''event'' (es_Id m),
                                       GetLink ''microcosm''
                                         (GetMicrocosmTitle w (es_MicrocosmId m))
                                         ''microcosm'' (es_MicrocosmId m)]\<rparr>\<rparr>;
                                w0 = CacheSet mcKey (VEventSummary m) (mcTtl w) w
                            in (case EventSummaryType_FetchProfileSummaries m siteId w0 of
                                  ((status, Some err), m1, w1) \<Rightarrow>
                                    ((EventSummaryType0, status, Some err), w1)
                                | ((status, None), m1, w1) \<Rightarrow>
                                    (case EventSummaryType_GetAttending m1 profileId w1 of
                                       ((status, Some err), m2, w2) \<Rightarrow>
                                         ((EventSummaryType0, status, Some err), w2)
                                     | ((status, None), m2, w2) \<Rightarrow>
                                         ((m2, StatusOK, None), w2))))))))"

text \<open>The loop of \<^verbatim>\<open>GetEvents\<close> over \<^verbatim>\<open>rows.Next()\<close>: one sequential call of
  \<^verbatim>\<open>GetEventSummary\<close> per row, stopping at the first error.\<close>

fun GetEvents_rows ::
  "int \<Rightarrow> int \<Rightarrow> (string + int \<times> int \<times> bool) list \<Rightarrow> int \<Rightarrow> EventSummaryType list \<Rightarrow> world \<Rightarrow>
   ((int \<times> string) + (int \<times> EventSummaryType list)) \<times> world" where
  "GetEvents_rows siteId profileId [] total' ems w = (Inr (total', ems), w)"
| "GetEvents_rows siteId profileId (Inl err # rows) total' ems w =
     (Inl (StatusInternalServerError, ''Row parsing error: '' @ err), w)"
| "GetEvents_rows siteId profileId (Inr (t, id', isAttending) # rows) total' ems w =
     (case GetEventSummary siteId id' profileId w of
        ((m, status, Some err), w1) \<Rightarrow> (Inl (status, err), w1)
      | ((m, status, None), w1) \<Rightarrow>
          GetEvents_rows siteId profileId rows t
            (ems @ [m\<lparr>es_Meta := (es_Meta m)\<lparr>sm_Flags :=
                       (sm_Flags (es_Meta m))\<lparr>Attending := isAttending\<rparr>\<rparr>\<rparr>]) w1)"

definition GetEvents ::
  "int \<Rightarrow> int \<Rightarrow> bool \<Rightarrow> int \<Rightarrow> int \<Rightarrow> world \<Rightarrow>
   (EventSummaryType list \<times> int \<times> int \<times> int \<times> go_error) \<times> world" where
  "GetEvents siteId profileId attending limit offset w =
     (case faults w GetConnection of
        Some err \<Rightarrow> (([], 0, 0, StatusInternalServerError, Some err), w)
      | None \<Rightarrow>
     (case q_GetEvents w siteId profileId attending limit offset of
        QueryFailed err \<Rightarrow>
          (([], 0, 0, StatusInternalServerError, Some (''Database query failed: '' @ err)), w)
      | Rows rows rows_err \<Rightarrow>
     (case GetEvents_rows siteId profileId rows 0 [] w of
        (Inl (status, err), w1) \<Rightarrow> (([], 0, 0, status, Some err), w1)
      | (Inr (total', ems), w1) \<Rightarrow>
     (case rows_err of
        Some err \<Rightarrow>
          (([], 0, 0, StatusInternalServerError, Some (''Error fetching rows: '' @ err)), w1)
      | None \<Rightarrow>
          let pages = GetPageCount total' limit;
              maxOffset = GetMaxOffset total' limit
          in if offset > maxOffset then
               (([], 0, 0, StatusBadRequest,
                 Some (''not enough records, offset ('' @ fmt_d offset
                       @ '') would return an empty page.'')), w1)
             else ((ems, total', pages, StatusOK, None), w1)))))"

section \<open>GetProfile\<close>

definition fill_Profile :: "ProfileType \<Rightarrow> ProfileType" where
  "fill_Profile m =
     (let m = (case p_GenderNullable m of Some v \<Rightarrow> m\<lparr>p_Gender := v\<rparr> | None \<Rightarrow> m);
          m = (case p_AvatarIdNullable m of Some v \<Rightarrow> m\<lparr>p_AvatarId := v\<rparr> | None \<Rightarrow> m)
      in (case p_AvatarUrlNullable m of Some v \<Rightarrow> m\<lparr>p_AvatarUrl := v\<rparr> | None \<Rightarrow> m))"

definition GetProfile :: "int \<Rightarrow> int \<Rightarrow> world \<Rightarrow> (ProfileType \<times> int \<times> go_error) \<times> world" where
  "GetProfile siteId id' w =
     (if id' = 0 then ((ProfileType0, StatusNotFound, Some ''Profile not found''), w)
      else
        let mcKey = mcProfileKeys CacheDetail id' in
        (case CacheGet_ProfileType mcKey w of
           Some m \<Rightarrow>
             if p_SiteId m \<noteq> siteId then
               ((ProfileType0, StatusNotFound, Some ''Not found''), w)
             else ((m, StatusOK, None), w)
         | None \<Rightarrow>
             (case faults w GetConnection of
                Some err \<Rightarrow> ((ProfileType0, StatusInternalServerError, Some err), w)
              | None \<Rightarrow>
                  (case q_GetProfile w siteId id' of
                     ErrNoRows \<Rightarrow>
                       ((ProfileType0, StatusNotFound,
                         Some (''Resource with profile ID '' @ fmt_d id' @ '' not found'')), w)
                   | QueryError err \<Rightarrow>
                       ((ProfileType0, StatusInternalServerError,
                         Some (''Database query failed: '' @ err)), w)
                   | Row (r, profileCommentId) \<Rightarrow>
                       let m = fill_Profile r;
                           links = [GetLink ''self'' [] ''profile'' (p_Id m),
                                    GetLink ''site'' [] ''site'' (p_SiteId m)]
                       in if profileCommentId > 0 then
                            (case GetCommentSummary w siteId profileCommentId of
                               (comment, status, Some err) \<Rightarrow>
                                 ((ProfileType0, status, Some err), w)
                             | (comment, status, None) \<Rightarrow>
                                 let m = m\<lparr>p_ProfileComment := Some comment,
                                           p_Meta_Links := links\<rparr>
                                 in ((m, StatusOK, None),
                                     CacheSet mcKey (VProfile m) (mcTtl w) w))
                          else
                            let m = m\<lparr>p_Meta_Links := links\<rparr>
                            in ((m, StatusOK, None),
                                CacheSet mcKey (VProfile m) (mcTtl w) w)))))"

section \<open>Purging\<close>

text \<open>
  Modelled from the spec: \<^verbatim>\<open>PurgeCache\<close> and \<^verbatim>\<open>PurgeCacheByScope\<close> are declared
  outside the sources. By the spec's ScopedCache, \<open>purge(kind, id)\<close> removes the entry of
  every scope of that item and \<open>purgeScope(scope, kind, id)\<close> removes the entry of one
  scope; a cache that does not answer absorbs the call. Each call is recorded in the log.
\<close>

definition PurgeCache :: "int \<Rightarrow> int \<Rightarrow> world \<Rightarrow> world" where
  "PurgeCache itemTypeId itemId w =
     w\<lparr> cache :=
          (if cache_up w then
             (\<lambda>k. case k of
                    ItemKey t s i \<Rightarrow> if t = itemTypeId \<and> i = itemId then None else cache w k
                  | NamedKey n \<Rightarrow> cache w k)
           else cache w),
        log := log w @ [Purged itemTypeId itemId] \<rparr>"

definition PurgeCacheByScope :: "scope \<Rightarrow> int \<Rightarrow> int \<Rightarrow> world \<Rightarrow> world" where
  "PurgeCacheByScope s itemTypeId itemId w =
     w\<lparr> cache := (if cache_up w then (cache w)(ItemKey itemTypeId s itemId := None)
                  else cache w),
        log := log w @ [PurgedScope s itemTypeId itemId] \<rparr>"

text \<open>\<^verbatim>\<open>go PurgeCache(...)\<close>: the purge is handed to a goroutine and has not touched the
  cache when the caller returns.\<close>

definition go_PurgeCache :: "int \<Rightarrow> int \<Rightarrow> world \<Rightarrow> world" where
  "go_PurgeCache itemTypeId itemId w = w\<lparr> log := log w @ [GoPurged itemTypeId itemId] \<rparr>"

section \<open>Events: writing\<close>

text \<open>\<^verbatim>\<open>strings.Trim(s, " ")\<close>.\<close>

definition Trim_space :: "string \<Rightarrow> string" where
  "Trim_space s =
     rev (dropWhile (\<lambda>c. c = CHR '' '') (rev (dropWhile (\<lambda>c. c = CHR '' '') s)))"

abbreviation EventStatusProposed :: string where "EventStatusProposed \<equiv> ''proposed''"
abbreviation EventStatusUpcoming :: string where "EventStatusUpcoming \<equiv> ''upcoming''"

text \<open>
  \<^verbatim>\<open>EventType.Validate\<close>. The blocks of the source that only rewrite fields are
  definitions of their own, in the order of the source: the three calls of
  \<^verbatim>\<open>SanitiseText\<close>, the default status, the parse of \<^verbatim>\<open>When\<close>, the default
  duration, the copy of \<^verbatim>\<open>Where\<close>, and the closing assignments.
\<close>

definition sanitise_Event :: "EventType \<Rightarrow> world \<Rightarrow> EventType" where
  "sanitise_Event m w =
     m\<lparr> e_Title := SanitiseText (lib w) (e_Title m),
        e_Where := SanitiseText (lib w) (e_Where m),
        e_Meta := (e_Meta m)\<lparr>em_EditReason := SanitiseText (lib w) (em_EditReason (e_Meta m))\<rparr> \<rparr>"

definition whisper_EditReason :: "EventType \<Rightarrow> world \<Rightarrow> EventType" where
  "whisper_EditReason m w =
     m\<lparr>e_Meta := (e_Meta m)\<lparr>em_EditReason := ShoutToWhisper (lib w) (em_EditReason (e_Meta m))\<rparr>\<rparr>"

definition default_Status :: "EventType \<Rightarrow> EventType" where
  "default_Status m =
     (if Trim_space (e_When m) = [] then m\<lparr>e_Status := EventStatusProposed\<rparr>
      else m\<lparr>e_Status := EventStatusUpcoming\<rparr>)"

definition parse_When :: "EventType \<Rightarrow> world \<Rightarrow> string + EventType" where
  "parse_When m w =
     (if Trim_space (e_When m) \<noteq> [] then
        (case time_Parse (lib w) (e_When m) of
           Inl err \<Rightarrow> Inl err
         | Inr eventTimestamp \<Rightarrow> Inr (m\<lparr>e_WhenNullable := Some eventTimestamp\<rparr>))
      else Inr m)"

definition default_Duration :: "EventType \<Rightarrow> EventType" where
  "default_Duration m = (if e_Duration m < 0 then m\<lparr>e_Duration := 60 * 1\<rparr> else m)"

definition whisper_Where :: "EventType \<Rightarrow> world \<Rightarrow> EventType" where
  "whisper_Where m w =
     (if e_Where m \<noteq> [] then
        m\<lparr> e_Where := ShoutToWhisper (lib w) (e_Where m),
           e_WhereNullable := Some (ShoutToWhisper (lib w) (e_Where m)) \<rparr>
      else m)"

definition spaces_and_visibility :: "EventType \<Rightarrow> world \<Rightarrow> EventType" where
  "spaces_and_visibility m w =
     m\<lparr> e_RSVPSpaces := e_RSVPLimit m,
        e_Meta := (e_Meta m)\<lparr>em_Flags := SetVisible (lib w) (em_Flags (e_Meta m))\<rparr> \<rparr>"

definition EventType_Validate ::
  "EventType \<Rightarrow> int \<Rightarrow> int \<Rightarrow> bool \<Rightarrow> world \<Rightarrow> (int \<times> go_error) \<times> EventType" where
  "EventType_Validate m0 siteId profileId exists w =
     (let m = sanitise_Event m0 w in
      (case (if \<not> exists then GetMicrocosmSummary w siteId (e_MicrocosmId m) profileId
             else (StatusOK, None)) of
         (status, Some err) \<Rightarrow> ((status, Some err), m)
       | (status, None) \<Rightarrow>
           if exists \<and> em_EditReason (e_Meta m) = [] then
             ((StatusBadRequest, Some ''You must provide a reason for the update''), m)
           else
             let m = (if exists then whisper_EditReason m w else m) in
             if e_MicrocosmId m \<le> 0 then
               ((StatusBadRequest, Some ''You must specify a Microcosm ID''), m)
             else if e_Title m = [] then
               ((StatusBadRequest, Some ''Title is a required field''), m)
             else
               let m = default_Status (m\<lparr>e_Title := ShoutToWhisper (lib w) (e_Title m)\<rparr>) in
               (case parse_When m w of
                  Inl err \<Rightarrow> ((StatusBadRequest, Some err), m)
                | Inr m \<Rightarrow>
                    let m = whisper_Where (default_Duration m) w in
                    if e_RSVPLimit m < 0 then
                      ((StatusBadRequest,
                        Some ''RSVPLimit must be 0 (unlimited) or greater''), m)
                    else ((StatusOK, None), spaces_and_visibility m w))))"

text \<open>The fingerprint key of \<^verbatim>\<open>Insert\<close>, computed from the validated event.\<close>

definition dupeKey :: "EventType \<Rightarrow> world \<Rightarrow> cache_key" where
  "dupeKey m w =
     (let when = (case e_WhenNullable m of Some t \<Rightarrow> time_String (lib w) t | None \<Rightarrow> []);
          where' = (case e_WhereNullable m of Some v \<Rightarrow> v | None \<Rightarrow> [])
      in NamedKey (''dupe_'' @ Md5sum (lib w)
           (fmt_d (e_MicrocosmId m) @ e_Title m @ when @ where'
            @ fmt_b (lib w) (e_Lat m) @ fmt_b (lib w) (e_Lon m)
            @ fmt_b (lib w) (e_North m) @ fmt_b (lib w) (e_East m)
            @ fmt_b (lib w) (e_South m) @ fmt_b (lib w) (e_West m)
            @ e_Status m @ fmt_d (e_RSVPLimit m)
            @ fmt_d (em_CreatedById (e_Meta m)))))"

text \<open>
  The \<^verbatim>\<open>INSERT INTO events ... RETURNING event_id\<close> of \<^verbatim>\<open>Insert\<close>: the row gets the
  next value of the sequence. \<^verbatim>\<open>IncrementMicrocosmItemCount\<close> is declared outside the
  sources: it is one statement on the transaction that adds one to the microcosm's counter.
\<close>

definition QueryRow_InsertEvent :: "EventType \<Rightarrow> tx \<Rightarrow> world \<Rightarrow> (string + int) \<times> tx" where
  "QueryRow_InsertEvent m t w =
     (case faults w (Exec ''INSERT INTO events'') of
        Some err \<Rightarrow> (Inl err, t\<lparr>tx_failed := True\<rparr>)
      | None \<Rightarrow>
          let insertId = events_seq (tx_db t)
          in (Inr insertId,
              t\<lparr>tx_db := (tx_db t)\<lparr> events_tbl := events_tbl (tx_db t) @ [m\<lparr>e_Id := insertId\<rparr>],
                                     events_seq := insertId + 1 \<rparr>\<rparr>))"

definition IncrementMicrocosmItemCount :: "int \<Rightarrow> tx \<Rightarrow> world \<Rightarrow> go_error \<times> tx" where
  "IncrementMicrocosmItemCount microcosmId t w =
     (case faults w (Exec ''IncrementMicrocosmItemCount'') of
        Some err \<Rightarrow> (Some err, t\<lparr>tx_failed := True\<rparr>)
      | None \<Rightarrow>
          (None, t\<lparr>tx_db := (tx_db t)\<lparr> microcosm_item_count :=
                     (microcosm_item_count (tx_db t))
                       (microcosmId := microcosm_item_count (tx_db t) microcosmId + 1) \<rparr>\<rparr>))"

definition EventType_Insert ::
  "EventType \<Rightarrow> int \<Rightarrow> int \<Rightarrow> world \<Rightarrow> (int \<times> go_error) \<times> EventType \<times> world" where
  "EventType_Insert m0 siteId profileId w =
     (case EventType_Validate m0 siteId profileId False w of
        ((status, Some err), m) \<Rightarrow> ((status, Some err), m, w)
      | ((status, None), m) \<Rightarrow>
          let key = dupeKey m w in
          (case CacheGetInt64 key w of
             (v, True) \<Rightarrow> ((StatusOK, None), m\<lparr>e_Id := v\<rparr>, w)
           | (v, False) \<Rightarrow>
               (case faults w GetTransaction of
                  Some err \<Rightarrow> ((StatusInternalServerError, Some err), m, w)
                | None \<Rightarrow>
                    (case QueryRow_InsertEvent m (tx_Begin w) w of
                       (Inl err, t) \<Rightarrow>
                         ((StatusInternalServerError,
                           Some (''Error inserting data and returning ID: '' @ err)), m, w)
                     | (Inr insertId, t) \<Rightarrow>
                         let m = m\<lparr>e_Id := insertId\<rparr> in
                         (case IncrementMicrocosmItemCount (e_MicrocosmId m) t w of
                            (Some err, t) \<Rightarrow> ((StatusInternalServerError, Some err), m, w)
                          | (None, t) \<Rightarrow>
                              (case tx_Commit ''INSERT INTO events'' t w of
                                 (Some err, w1) \<Rightarrow>
                                   ((StatusInternalServerError,
                                     Some (''Transaction failed: '' @ err)), m, w1)
                               | (None, w1) \<Rightarrow>
                                   let w2 = CacheSetInt64 key (e_Id m) (60 * 5) w1;
                                       w3 = PurgeCache ItemTypeEvent (e_Id m) w2;
                                       w4 = PurgeCache ItemTypeMicrocosm (e_MicrocosmId m) w3
                                   in ((StatusOK, None), m, w4)))))))"

text \<open>
  The fields that enter the fingerprint of \<^verbatim>\<open>Insert\<close>, as the caller supplies them.
  (\<^verbatim>\<open>Status\<close> enters it too, but \<^verbatim>\<open>Validate\<close> derives it from \<^verbatim>\<open>When\<close>.)
\<close>

definition same_significant_fields :: "EventType \<Rightarrow> EventType \<Rightarrow> bool" where
  "same_significant_fields m m' \<longleftrightarrow>
     e_MicrocosmId m = e_MicrocosmId m' \<and> e_Title m = e_Title m' \<and>
     e_When m = e_When m' \<and> e_WhenNullable m = e_WhenNullable m' \<and>
     e_Where m = e_Where m' \<and> e_WhereNullable m = e_WhereNullable m' \<and>
     e_Lat m = e_Lat m' \<and> e_Lon m = e_Lon m' \<and> e_North m = e_North m' \<and>
     e_East m = e_East m' \<and> e_South m = e_South m' \<and> e_West m = e_West m' \<and>
     e_RSVPLimit m = e_RSVPLimit m' \<and>
     em_CreatedById (e_Meta m) = em_CreatedById (e_Meta m')"

text \<open>Agreement on everything that enters the fingerprint, the status included.\<close>

definition same_fp :: "EventType \<Rightarrow> EventType \<Rightarrow> bool" where
  "same_fp m m' \<longleftrightarrow> same_significant_fields m m' \<and> e_Status m = e_Status m'"

text \<open>The world that a successful \<^verbatim>\<open>Insert\<close> leaves after a miss of the fingerprint
  key: one more row, the counter of the microcosm, the commit, the remembered fingerprint
  and the two purges.\<close>

definition after_insert :: "EventType \<Rightarrow> cache_key \<Rightarrow> world \<Rightarrow> world" where
  "after_insert mv key w =
     PurgeCache ItemTypeMicrocosm (e_MicrocosmId mv)
       (PurgeCache ItemTypeEvent (events_seq (db w))
          (CacheSetInt64 key (events_seq (db w)) (60 * 5)
             (w\<lparr> db := (db w)\<lparr> events_tbl := events_tbl (db w) @ [mv\<lparr>e_Id := events_seq (db w)\<rparr>],
                               events_seq := events_seq (db w) + 1,
                               microcosm_item_count := (microcosm_item_count (db w))
                                 (e_MicrocosmId mv := microcosm_item_count (db w) (e_MicrocosmId mv) + 1) \<rparr>,
                  log := log w @ [Committed ''INSERT INTO events''] \<rparr>)))"

section \<open>Mutations of profiles and events\<close>

text \<open>A statement run on a transaction: it fails when the data store says so, which leaves
  the transaction failed.\<close>

definition tx_Exec :: "string \<Rightarrow> tx \<Rightarrow> world \<Rightarrow> go_error \<times> tx" where
  "tx_Exec name t w =
     (case faults w (Exec name) of
        Some err \<Rightarrow> (Some err, t\<lparr>tx_failed := True\<rparr>)
      | None \<Rightarrow> (None, t))"

subsection \<open>Profile validation\<close>

definition ValidateProfileName :: "string \<Rightarrow> world \<Rightarrow> string \<times> int \<times> go_error" where
  "ValidateProfileName name0 w =
     (let name = SanitiseText (lib w) (Trim_space name0) in
      if name = [] then (name, StatusBadRequest, Some ''You must supply a profile name'')
      else
        let nameLen = length name in
        if nameLen < 2 then
          (name, StatusBadRequest,
           Some ''Profile name is too short, it must be 2 characters or more.'')
        else if nameLen > 25 then
          (name, StatusBadRequest,
           Some ''Profile name is too long, it must be 25 or fewer characters in length.'')
        else if CHR '' '' \<in> set name then
          (name, StatusBadRequest,
           Some (''Profile name cannot contain a space, ''
                 @ ''have you considered using an underscore instead?''))
        else if CHR ''@'' \<in> set name then
          (name, StatusBadRequest,
           Some (''Profile name cannot contain an @, ''
                 @ ''have you considered using an underscore instead?''))
        else if CHR ''+'' \<in> set name then
          (name, StatusBadRequest,
           Some (''Profile name cannot contain a +, ''
                 @ ''have you considered using an underscore instead?''))
        else (name, StatusOK, None))"

text \<open>\<^verbatim>\<open>user.ID+5830\<close> on \<^verbatim>\<open>int64\<close>, with its wrap-around.\<close>

definition int64_add :: "int \<Rightarrow> int \<Rightarrow> int" where
  "int64_add a b = (a + b + 2 ^ 63) mod 2 ^ 64 - 2 ^ 63"

definition SuggestProfileName :: "UserType \<Rightarrow> world \<Rightarrow> string" where
  "SuggestProfileName user w =
     (case map_of (reservedProfileNames w) (u_Email user) of
        Some name \<Rightarrow> name
      | None \<Rightarrow> ''user'' @ fmt_d (int64_add (u_ID user) 5830))"

text \<open>The loop over the rows of \<^verbatim>\<open>IsProfileNameTaken\<close>: the last row that scans stays
  in \<^verbatim>\<open>email\<close> and \<^verbatim>\<open>exists\<close>; a row that fails to scan ends the function.\<close>

fun scan_taken :: "(string + string \<times> bool) list \<Rightarrow> string \<times> bool \<Rightarrow> string + string \<times> bool" where
  "scan_taken [] acc = Inr acc"
| "scan_taken (Inl err # rows) acc = Inl err"
| "scan_taken (Inr r # rows) acc = scan_taken rows r"

definition IsProfileNameTaken :: "int \<Rightarrow> int \<Rightarrow> string \<Rightarrow> world \<Rightarrow> bool \<times> int \<times> go_error" where
  "IsProfileNameTaken siteId userId profileName0 w =
     (let profileName = ToLower (lib w) profileName0 in
      (case faults w GetConnection of
         Some err \<Rightarrow> (True, StatusInternalServerError, Some err)
       | None \<Rightarrow>
           (case q_IsProfileNameTaken w siteId userId profileName of
              QueryFailed err \<Rightarrow>
                (True, StatusInternalServerError, Some (''Database query failed: '' @ err))
            | Rows rows rows_err \<Rightarrow>
                (case scan_taken rows ([], False) of
                   Inl err \<Rightarrow>
                     (True, StatusInternalServerError, Some (''Row parsing error: '' @ err))
                 | Inr (email, exists) \<Rightarrow>
                     (case rows_err of
                        Some err \<Rightarrow>
                          (True, StatusInternalServerError,
                           Some (''Error fetching rows: '' @ err))
                      | None \<Rightarrow>
                          if exists then (True, StatusOK, None)
                          else if \<exists>(e, n) \<in> set (reservedProfileNames w).
                                    ToLower (lib w) n = profileName \<and> email \<noteq> e
                          then (True, StatusOK, None)
                          else (False, StatusOK, None))))))"

definition ProfileType_Validate :: "ProfileType \<Rightarrow> bool \<Rightarrow> world \<Rightarrow> (int \<times> go_error) \<times> ProfileType" where
  "ProfileType_Validate m0 exists w =
     (let m = m0\<lparr>p_Gender := SanitiseText (lib w) (p_Gender m0)\<rparr> in
      if p_SiteId m < 1 then ((StatusBadRequest, Some ''Invalid site ID supplied''), m)
      else if p_UserId m < 1 then ((StatusBadRequest, Some ''Invalid user ID supplied''), m)
      else if p_StyleId m < 0 then ((StatusBadRequest, Some ''Invalid style ID supplied''), m)
      else
        (case ValidateProfileName (p_ProfileName m) w of
           (name, status, Some err) \<Rightarrow> ((status, Some err), m)
         | (name, status, None) \<Rightarrow>
             let m = m\<lparr>p_ProfileName := name\<rparr> in
             (case IsProfileNameTaken (p_SiteId m) (p_UserId m) (p_ProfileName m) w of
                (profileNameTaken, status, Some err) \<Rightarrow> ((status, Some err), m)
              | (profileNameTaken, status, None) \<Rightarrow>
                  (case (if profileNameTaken then
                           (case GetUser w (p_UserId m) of
                              (user, status, Some err) \<Rightarrow> Inl (status, err)
                            | (user, status, None) \<Rightarrow>
                                Inr (m\<lparr>p_ProfileName := SuggestProfileName user w\<rparr>))
                         else Inr m) of
                     Inl (status, err) \<Rightarrow> ((status, Some err), m)
                   | Inr m \<Rightarrow>
                       if \<not> exists \<and> p_Id m \<noteq> 0 then
                         ((StatusBadRequest, Some ''You cannot specify an ID''), m)
                       else if \<not> exists \<and> p_ItemCount m \<noteq> 0 then
                         ((StatusBadRequest, Some ''You cannot specify item count''), m)
                       else if \<not> exists \<and> p_CommentCount m \<noteq> 0 then
                         ((StatusBadRequest, Some ''You cannot specify comment count''), m)
                       else if \<not> exists \<and> p_Created m \<noteq> 0 then
                         ((StatusBadRequest, Some ''You cannot specify creation time''), m)
                       else if \<not> exists \<and> p_LastActive m \<noteq> 0 then
                         ((StatusBadRequest, Some ''You cannot specify last active time''), m)
                       else ((StatusOK, None), m)))))"

subsection \<open>Profile mutations\<close>

definition ProfileType_Update :: "ProfileType \<Rightarrow> world \<Rightarrow> (int \<times> go_error) \<times> ProfileType \<times> world" where
  "ProfileType_Update m0 w =
     (case ProfileType_Validate m0 True w of
        ((status, Some err), m) \<Rightarrow> ((status, Some err), m, w)
      | ((status, None), m) \<Rightarrow>
          (case faults w GetTransaction of
             Some err \<Rightarrow>
               ((StatusInternalServerError, Some (''Could not start transaction: '' @ err)),
                m, w)
           | None \<Rightarrow>
               (case tx_Exec ''--Update Profile'' (tx_Begin w) w of
                  (Some err, t) \<Rightarrow>
                    ((StatusInternalServerError,
                      Some (''Update of profile failed: '' @ err)), m, w)
                | (None, t) \<Rightarrow>
                    (case tx_Commit ''--Update Profile'' t w of
                       (Some err, w1) \<Rightarrow>
                         ((StatusInternalServerError,
                           Some (''Transaction failed: '' @ err)), m, w1)
                     | (None, w1) \<Rightarrow>
                         ((StatusOK, None), m, PurgeCache ItemTypeProfile (p_Id m) w1)))))"







definition MakeGravatarUrl :: "string \<Rightarrow> world \<Rightarrow> string" where
  "MakeGravatarUrl email w =
     ''https://secure.gravatar.com/avatar/''
       @ Md5sum (lib w) (ToLower (lib w) (Trim_space email)) @ ''?d=identicon''"

definition AttachAvatar :: "int \<Rightarrow> FileMetadataType \<Rightarrow> world \<Rightarrow> int \<times> int \<times> go_error" where
  "AttachAvatar profileId fileMetadata w =
     (case Attachment_Insert w profileId fileMetadata of
        (attachmentId, status, Some err) \<Rightarrow>
          (0, StatusInternalServerError,
           Some (''Could not create avatar attachment to profile: '' @ err))
      | (attachmentId, status, None) \<Rightarrow> (attachmentId, StatusOK, None))"

text \<open>
  \<^verbatim>\<open>ProfileType.insert\<close>. After the commit of the new row it loads the user, stores and
  attaches the avatar (unless importing), calls \<^verbatim>\<open>Update\<close>, and hands the purge of the
  profile to a goroutine. (\<^verbatim>\<open>go MarkAllAsRead\<close>, which follows, is declared outside
  the sources and is not a purge; it is left out.)
\<close>

definition ProfileType_insert ::
  "bool \<Rightarrow> ProfileType \<Rightarrow> world \<Rightarrow> (int \<times> go_error) \<times> ProfileType \<times> world" where
  "ProfileType_insert isImport m w =
     (case faults w GetTransaction of
        Some err \<Rightarrow>
          ((StatusInternalServerError, Some (''Could not start transaction: '' @ err)), m, w)
      | None \<Rightarrow>
     (case tx_Exec ''--Create Profile'' (tx_Begin w) w of
        (Some err, t) \<Rightarrow>
          ((StatusInternalServerError,
            Some (''Error inserting data and returning ID: '' @ err)), m, w)
      | (None, t) \<Rightarrow>
     let insertId = profiles_seq (tx_db t);
         t = t\<lparr>tx_db := (tx_db t)\<lparr>profiles_seq := insertId + 1\<rparr>\<rparr>;
         m = m\<lparr>p_Id := insertId\<rparr>
     in
     (case GetProfileOptionsDefaults w (p_SiteId m) of
        (status, Some err) \<Rightarrow>
          ((status, Some (''Could not load default profile options: '' @ err)), m, w)
      | (status, None) \<Rightarrow>
     (case ProfileOptions_Insert w insertId of
        (status, Some err) \<Rightarrow>
          ((status, Some (''Could not insert new profile options: '' @ err)), m, w)
      | (status, None) \<Rightarrow>
     (case tx_Commit ''--Create Profile'' t w of
        (Some err, w1) \<Rightarrow>
          ((StatusInternalServerError, Some (''Transaction failed: '' @ err)), m, w1)
      | (None, w1) \<Rightarrow>
     (case GetUser w1 (p_UserId m) of
        (user, status, Some err) \<Rightarrow>
          ((StatusInternalServerError, Some (''No user found for profile: '' @ err)), m, w1)
      | (user, status, None) \<Rightarrow>
     (case (if \<not> isImport then
              (case StoreGravatar w1 (MakeGravatarUrl (u_Email user) w1) of
                 (fm, status, Some err) \<Rightarrow>
                   Inl (StatusInternalServerError,
                        ''Could not store gravatar for profile: '' @ err)
               | (fm, status, None) \<Rightarrow>
                   (case AttachAvatar (p_Id m) fm w1 of
                      (attachmentId, status, Some err) \<Rightarrow>
                        Inl (status, ''Could not attach avatar to profile: '' @ err)
                    | (attachmentId, status, None) \<Rightarrow>
                        Inr (m\<lparr>p_AvatarIdNullable := Some attachmentId\<rparr>,
                             ApiTypeFile (lib w1) @ ''/'' @ FileHash fm
                               @ (if FileExt fm \<noteq> [] then ''.'' @ FileExt fm else []))))
            else Inr (m, MakeGravatarUrl (u_Email user) w1)) of
        Inl (status, err) \<Rightarrow> ((status, Some err), m, w1)
      | Inr (m, avatarUrl) \<Rightarrow>
          (case ProfileType_Update (m\<lparr>p_AvatarUrlNullable := Some avatarUrl\<rparr>) w1 of
             ((status, Some err), m, w2) \<Rightarrow>
               ((status, Some (''Could not update profile with avatar: '' @ err)), m, w2)
           | ((status, None), m, w2) \<Rightarrow>
               ((StatusOK, None), m, go_PurgeCache ItemTypeProfile (p_Id m) w2)))))))))"


definition ProfileType_Import :: "ProfileType \<Rightarrow> world \<Rightarrow> (int \<times> go_error) \<times> ProfileType \<times> world" where
  "ProfileType_Import m0 w =
     (let m = m0\<lparr>p_ProfileName :=
                  map (\<lambda>c. if c = CHR '' '' then CHR ''_'' else c) (p_ProfileName m0)\<rparr>
      in (case ProfileType_Validate m True w of
            ((status, Some err), m) \<Rightarrow> ((status, Some err), m, w)
          | ((status, None), m) \<Rightarrow>
              ProfileType_insert True
                (if p_LastActive m < p_Created m then m\<lparr>p_LastActive := p_Created m\<rparr> else m)
                w))"

subsection \<open>Event mutations\<close>









section \<open>What a mutation leaves in the log\<close>


definition purged :: "int \<Rightarrow> int \<Rightarrow> world \<Rightarrow> bool" where
  "purged t i w \<longleftrightarrow>
     cache_read (ItemKey t CacheDetail i) w = None \<and>
     cache_read (ItemKey t CacheSummary i) w = None \<and>
     cache_read (ItemKey t CacheCounts i) w = None \<and>
     cache_read (ItemKey t CacheProfileIds i) w = None"

section \<open>Concrete worlds\<close>

text \<open>
  A small world used to run the functions: an empty cache that answers, no failing call,
  two profiles (7 and 5) and one page of identifiers on site 1.
\<close>

definition so_demo :: ProfileSearchOptions where
  "so_demo = \<lparr> OrderByCommentCount = False, IsFollowing = False, IsOnline = False,
     StartsWith = [], so_ProfileId = 0 \<rparr>"

definition tables_demo :: tables where
  "tables_demo = \<lparr> ignores_tbl = [], events_tbl = [], events_seq = 1, profiles_seq = 1,
     microcosm_item_count = (\<lambda>_. 0) \<rparr>"

definition row_demo :: "int \<Rightarrow> int \<Rightarrow> ProfileSummaryRow" where
  "row_demo site i = \<lparr> col_profile_id = i, col_site_id = site, col_user_id = i + 100,
     col_profile_name = ''someone'', col_is_visible = True, col_avatar_url = None,
     col_avatar_id = None \<rparr>"

definition lib_demo :: helpers where
  "lib_demo = \<lparr> SanitiseText = (\<lambda>s. s), ShoutToWhisper = (\<lambda>s. s),
     Md5sum = (\<lambda>s. s),
     time_Parse = (\<lambda>s. if s = ''2014-05-05T19:00:00Z'' then Inr 1399316400
                         else Inl ''parsing time: cannot parse''),
     time_Format = (\<lambda>t. ''2014-05-05T19:00:00Z''),
     time_String = (\<lambda>t. ''2014-05-05 19:00:00 +0000 UTC''),
     fmt_b = (\<lambda>x. ''0p-1074''),
     SetVisible = (\<lambda>f. f\<lparr>Visible := \<not> (Moderated f \<or> Deleted f)\<rparr>),
     ToLower = (\<lambda>s. s), ApiTypeFile = ''files'' \<rparr>"

definition w_demo :: world where
  "w_demo = \<lparr> cache = Map.empty, cache_up = True, clock = 1000, mcTtl = 3600,
     faults = (\<lambda>_. None),
     q_GetProfileSummary =
       (\<lambda>site i. if site = 1 \<and> (i = 7 \<or> i = 5) then Row (row_demo site i) else ErrNoRows),
     q_GetProfiles_count = (\<lambda>_ _ _ _. Row 2),
     q_GetProfiles = (\<lambda>_ _ _ _. Rows [Inr 7, Inr 5] None),
     q_GetIgnored = (\<lambda>_ _ _. Rows [Inr (2, 5, 3, 7), Inr (2, 5, 3, 9)] None),
     q_GetProfile = (\<lambda>_ _. ErrNoRows),
     q_GetEvent = (\<lambda>_ _. ErrNoRows),
     q_GetEventSummary = (\<lambda>_. ErrNoRows),
     q_GetEvents = (\<lambda>_ _ _ _ _. Rows [] None),
     q_attendees = (\<lambda>_. Rows [] None),
     GetCommentSummary = (\<lambda>_ i. (CommentSummary i, StatusOK, None)),
     GetLastComment =
       (\<lambda>_ _. (\<lparr>lc_Id = 0, lc_CreatedById = 0, lc_CreatedBy = None, lc_Valid = False\<rparr>,
                StatusOK, None)),
     GetMicrocosmTitle = (\<lambda>_. ''A microcosm''),
     GetMicrocosmSummary = (\<lambda>_ _ _. (StatusOK, None)),
     q_IsProfileNameTaken = (\<lambda>_ _ _. Rows [Inr (''someone@example.org'', False)] None),
     reservedProfileNames = [],
     GetUser = (\<lambda>i. (\<lparr>u_ID = i, u_Email = ''someone@example.org''\<rparr>, StatusOK, None)),
     GetProfileOptionsDefaults = (\<lambda>_. (StatusOK, None)),
     ProfileOptions_Insert = (\<lambda>_. (StatusOK, None)),
     StoreGravatar =
       (\<lambda>_. (\<lparr>AttachmentMetaId = 1, FileHash = ''da39a3ee'', FileExt = ''png''\<rparr>,
             StatusOK, None)),
     Attachment_Insert = (\<lambda>_ _. (1, StatusOK, None)),
     ItemTypes = [''profile'' \<mapsto> 3, ''event'' \<mapsto> 9],
     GetItemTypeFromInt = (\<lambda>t. if t = 3 then Inr ''profile'' else Inl ''unknown item type''),
     lib = lib_demo,
     db = tables_demo,
     log = [] \<rparr>"

text \<open>The summary that \<^verbatim>\<open>GetProfileSummary\<close> builds from the row of profile \<open>i\<close> above.\<close>

definition summary_demo :: "int \<Rightarrow> ProfileSummaryType" where
  "summary_demo i = \<lparr> ps_Id = i, ps_SiteId = 1, ps_UserId = i + 100,
     ps_ProfileName = ''someone'', ps_Visible = True, ps_AvatarUrlNullable = None,
     ps_AvatarUrl = [], ps_AvatarIdNullable = None, ps_AvatarId = 0,
     ps_Meta_Links = [GetLink ''self'' [] ''profile'' i, GetLink ''site'' [] ''site'' 1] \<rparr>"

text \<open>
  The same world with a page whose second identifier (6) has no row, and a summary fetcher
  for \<^verbatim>\<open>GetIgnored\<close> that serves profiles through \<^verbatim>\<open>GetProfileSummary\<close>.
\<close>

definition w_fail :: world where
  "w_fail = w_demo \<lparr> q_GetProfiles := (\<lambda>_ _ _ _. Rows [Inr 7, Inr 6] None),
     q_GetIgnored := (\<lambda>_ _ _. Rows [Inr (2, 5, 3, 7), Inr (2, 5, 3, 6)] None) \<rparr>"

definition fetch_demo :: "ProfileSummaryType fetcher" where
  "fetch_demo siteId itemTypeId itemId profileId w = GetProfileSummary siteId itemId w"

definition ignore_demo :: "int \<Rightarrow> ProfileSummaryType IgnoreType" where
  "ignore_demo i = \<lparr> ProfileId = 5, ItemTypeId = 3, ItemType = ''profile'', ItemId = i,
     Item_ig = None \<rparr>"

text \<open>A world in which both profiles of the page fail to load, in two different ways.\<close>

definition w_two_failures :: world where
  "w_two_failures = w_demo \<lparr> q_GetProfileSummary :=
     (\<lambda>site i. if i = 7 then ErrNoRows else QueryError ''boom'') \<rparr>"

definition failed_7 :: ProfileSummaryRequest where
  "failed_7 = \<lparr> Item = ProfileSummaryType0,
     Err = Some ''Resource with profile ID 7 not found'', Status = StatusNotFound, Seq = 0 \<rparr>"

definition failed_5 :: ProfileSummaryRequest where
  "failed_5 = \<lparr> Item = ProfileSummaryType0,
     Err = Some ''Database query failed: boom'', Status = StatusInternalServerError,
     Seq = 1 \<rparr>"

text \<open>Every statement fails; connections, transactions and commits work.\<close>

definition fail_exec :: "db_call \<Rightarrow> go_error" where
  "fail_exec c = (case c of Exec s \<Rightarrow> Some ''connection reset'' | _ \<Rightarrow> None)"

text \<open>
  A world whose cache holds entries of the wrong shape under the summary key of profile 7
  and under the attendee key of event 4, and three attendee rows, one of which fails to
  scan.
\<close>

definition w_shape :: world where
  "w_shape = w_demo \<lparr> cache :=
       [ItemKey 3 CacheSummary 7 \<mapsto> (VInt64 1, 5000),
        ItemKey 9 CacheProfileIds 4 \<mapsto> (VInt64 2, 5000)],
     q_attendees := (\<lambda>_. Rows [Inr 6, Inl ''bad row'', Inr 5] None) \<rparr>"

text \<open>
  A world in which the data store has event 5 on site 2 only, while the cache holds its
  detail; the creator of the event is profile 7, which is a profile of site 1.
\<close>

definition event_5 :: EventType where
  "event_5 = EventType0 \<lparr> e_Id := 5, e_MicrocosmId := 20, e_Title := ''Ride out'',
     e_Status := ''proposed'', e_Meta := EventMeta0 \<lparr> em_CreatedById := 7 \<rparr> \<rparr>"

definition w_leak :: world where
  "w_leak = w_demo \<lparr> cache := [ItemKey 9 CacheDetail 5 \<mapsto> (VEvent event_5, 5000)],
     q_GetEvent := (\<lambda>site i. if site = 2 \<and> i = 5 then Row event_5 else ErrNoRows) \<rparr>"

text \<open>
  A world with 25 profiles and 25 events in total, of which the page queries return the
  last ones, and an event 5 created by profile 7.
\<close>

definition summary_5 :: EventSummaryType where
  "summary_5 = EventSummaryType0 \<lparr> es_Id := 5, es_MicrocosmId := 20, es_Title := ''Ride out'',
     es_Status := ''proposed'', es_Meta := SummaryMeta0 \<lparr> sm_CreatedById := 7 \<rparr> \<rparr>"

definition w_25 :: world where
  "w_25 = w_demo \<lparr> q_GetProfiles_count := (\<lambda>_ _ _ _. Row 25),
     q_GetEvents := (\<lambda>_ _ _ _ _. Rows [Inr (25, 5, False)] None),
     q_GetEventSummary := (\<lambda>i. if i = 5 then Row summary_5 else ErrNoRows) \<rparr>"

text \<open>The same world, but the page of profiles holds an identifier (6) that has no row.\<close>

definition w_25_missing :: world where
  "w_25_missing = w_25 \<lparr> q_GetProfiles := (\<lambda>_ _ _ _. Rows [Inr 7, Inr 6] None) \<rparr>"

text \<open>A new event, and the same event submitted again with another duration.\<close>

definition event_new :: EventType where
  "event_new = EventType0 \<lparr> e_MicrocosmId := 20, e_Title := ''Ride out'',
     e_Meta := EventMeta0 \<lparr> em_CreatedById := 7 \<rparr> \<rparr>"

definition event_retry :: EventType where
  "event_retry = event_new \<lparr> e_Duration := 90 \<rparr>"







section \<open>Pagination arithmetic\<close>

lemma GetPageCount_div: "GetPageCount total' limit = - (- total' div limit)"
  unfolding GetPageCount_def by (rule ceiling_divide_eq_div)

lemma GetMaxOffset_last_page:
  assumes "0 < total'" "0 < limit"
  shows "GetMaxOffset total' limit < total' \<and> total' \<le> GetMaxOffset total' limit + limit
         \<and> GetMaxOffset total' limit mod limit = 0"
proof -
  let ?p = "GetPageCount total' limit"
  define q where "q = (- total') div limit"
  define r where "r = (- total') mod limit"
  have p: "?p = - q" by (simp add: GetPageCount_div q_def)
  have eq: "- total' = q * limit + r"
    by (simp add: q_def r_def)
  have r: "0 \<le> r" "r < limit"
    using assms(2) by (simp_all add: r_def)
  have tot: "total' = ?p * limit - r"
    using eq p by (simp add: algebra_simps)
  have up: "total' \<le> ?p * limit" using tot r by simp
  have low: "(?p - 1) * limit < total'"
    using tot r by (simp add: algebra_simps)
  have "0 < ?p * limit" using up assms(1) by simp
  then have "0 < ?p" using assms(2) by (simp add: zero_less_mult_iff)
  then have "0 \<le> (?p - 1) * limit" using assms(2) by simp
  then have m: "GetMaxOffset total' limit = (?p - 1) * limit"
    by (simp add: GetMaxOffset_def)
  have "GetMaxOffset total' limit mod limit = 0" by (simp add: m)
  moreover have "GetMaxOffset total' limit < total'" using low m by simp
  moreover have "total' \<le> GetMaxOffset total' limit + limit"
    using up m by (simp add: algebra_simps)
  ultimately show ?thesis by simp
qed

section \<open>The fan-out and gather of GetProfiles\<close>

lemma fan_out_Cons:
  "fan_out siteId ids (k # sched) w =
     (fst (HandleProfileSummaryRequest siteId (ids ! k) (int k) w)
        # fst (fan_out siteId ids sched
                 (snd (HandleProfileSummaryRequest siteId (ids ! k) (int k) w))),
      snd (fan_out siteId ids sched
             (snd (HandleProfileSummaryRequest siteId (ids ! k) (int k) w))))"
  by (simp split: prod.splits)

lemma Seq_Handle [simp]: "Seq (fst (HandleProfileSummaryRequest siteId i s w)) = s"
  by (simp add: HandleProfileSummaryRequest_def split: prod.splits)

lemma Item_Handle:
  "Item (fst (HandleProfileSummaryRequest siteId i s w)) = fst (fst (GetProfileSummary siteId i w))"
  by (simp add: HandleProfileSummaryRequest_def split: prod.splits)

lemma fan_out_Seq: "map Seq (fst (fan_out siteId ids sched w)) = map int sched"
  by (induction sched arbitrary: w) (simp_all add: fan_out_Cons del: fan_out.simps(2))

lemma fan_out_length: "length (fst (fan_out siteId ids sched w)) = length sched"
  using fan_out_Seq [of siteId ids sched w] by (metis length_map)

lemma receive_mset:
  assumes "mset arrival = mset [0..<length sent]"
  shows "mset (receive sent arrival) = mset sent"
proof -
  have "mset (receive sent arrival) = image_mset ((!) sent) (mset arrival)"
    by (simp add: receive_def)
  also have "\<dots> = mset (map ((!) sent) [0..<length sent])"
    using assms by simp
  also have "\<dots> = mset sent"
    by (simp add: map_nth)
  finally show ?thesis .
qed

lemma unit_in_fan_out:
  "i \<in> set sched \<Longrightarrow>
   fst (HandleProfileSummaryRequest siteId (ids ! i) (int i) (state_before siteId ids sched w i))
     \<in> set (fst (fan_out siteId ids sched w))"
  by (induction sched arbitrary: w) (auto simp add: fan_out_Cons simp del: fan_out.simps(2))

lemma sorted_by_key_upt:
  assumes "mset (map f xs) = mset (map int [0..<n])"
  shows "map f (sort_key f xs) = map int [0..<n]"
proof (rule sorted_distinct_set_unique)
  show "sorted (map f (sort_key f xs))" by (rule sorted_sort_key)
  have d: "distinct (map int [0..<n])" by (simp add: distinct_map)
  have "mset (map f (sort_key f xs)) = mset (map int [0..<n])"
    using assms by simp
  then show "distinct (map f (sort_key f xs))"
    using d mset_eq_imp_distinct_iff by blast
  show "sorted (map int [0..<n])" by (simp add: sorted_map strict_sorted_iff sorted_wrt_map)
  show "distinct (map int [0..<n])" by (rule d)
  show "set (map f (sort_key f xs)) = set (map int [0..<n])"
    using assms by (metis mset_eq_setD set_map set_sort)
qed

lemma unique_by_key:
  assumes "distinct (map f xs)" "r \<in> set xs" "r' \<in> set xs" "f r = f r'"
  shows "r = r'"
  using assms by (meson distinct_map inj_onD)

lemma first_error_None: "first_error rs = None \<longleftrightarrow> (\<forall>r \<in> set rs. Err r = None)"
  by (induction rs) (auto split: option.splits)

lemma gather_in_order:
  assumes sched: "mset sched = mset [0..<length ids]"
      and arrival: "mset arrival = mset [0..<length ids]"
      and i: "i < length ids"
  shows "sort_key Seq (receive (fst (fan_out siteId ids sched w)) arrival) ! i =
         fst (HandleProfileSummaryRequest siteId (ids ! i) (int i)
                (state_before siteId ids sched w i))"
proof -
  let ?sent = "fst (fan_out siteId ids sched w)"
  let ?resps = "receive ?sent arrival"
  let ?u = "fst (HandleProfileSummaryRequest siteId (ids ! i) (int i)
                   (state_before siteId ids sched w i))"
  have len: "length ?sent = length ids"
    using sched by (metis fan_out_length mset_eq_length length_upt diff_zero)
  have ms: "mset ?resps = mset ?sent"
    using arrival len by (simp add: receive_mset)
  have seqs: "mset (map Seq ?resps) = mset (map int [0..<length ids])"
    using ms sched by (metis fan_out_Seq mset_map)
  have sorted_seq: "map Seq (sort_key Seq ?resps) = map int [0..<length ids]"
    using seqs by (rule sorted_by_key_upt)
  have dist: "distinct (map Seq (sort_key Seq ?resps))"
    by (simp add: sorted_seq distinct_map)
  have li: "i < length (sort_key Seq ?resps)"
    using i sorted_seq by (metis length_map length_upt diff_zero)
  have seq_i: "Seq (sort_key Seq ?resps ! i) = int i"
    using li i sorted_seq by (metis nth_map nth_upt add_0 length_map)
  have in1: "sort_key Seq ?resps ! i \<in> set (sort_key Seq ?resps)"
    using li by (rule nth_mem)
  have "i \<in> set sched"
    using sched i by (metis atLeastLessThan_iff mset_eq_setD set_upt zero_le)
  then have "?u \<in> set ?sent" by (rule unit_in_fan_out)
  then have in2: "?u \<in> set (sort_key Seq ?resps)"
    using ms by (metis mset_eq_setD set_sort)
  show ?thesis
    using dist in1 in2 seq_i by (intro unique_by_key [of Seq "sort_key Seq ?resps"]) simp_all
qed

lemma scan_ids_Inr: "scan_ids (map Inr ids) acc = Inr (acc @ ids)"
  by (induction ids arbitrary: acc) simp_all

lemma GetProfiles_gather_unfold:
  "GetProfiles_gather siteId ids total' limit offset sched arrival w =
     (case first_error (receive (fst (fan_out siteId ids sched w)) arrival) of
        Some (status, err) \<Rightarrow> (([], 0, 0, status, Some err), snd (fan_out siteId ids sched w))
      | None \<Rightarrow>
          if offset > GetMaxOffset total' limit then
            (([], 0, 0, StatusBadRequest,
              Some (''not enough records, offset ('' @ fmt_d offset
                    @ '') would return an empty page.'')), snd (fan_out siteId ids sched w))
          else ((map Item (sort_key Seq (receive (fst (fan_out siteId ids sched w)) arrival)),
                 total', GetPageCount total' limit, StatusOK, None),
                snd (fan_out siteId ids sched w)))"
  by (cases "fan_out siteId ids sched w")
     (simp add: GetProfiles_gather_def Let_def split: option.splits)

lemma gather_length:
  assumes sched: "mset sched = mset [0..<length ids]"
      and arrival: "mset arrival = mset [0..<length ids]"
  shows "length (receive (fst (fan_out siteId ids sched w)) arrival) = length ids"
  using assms by (metis receive_def length_map mset_eq_length length_upt diff_zero)

lemmas eval_defs =
  GetProfiles_def w_demo_def GetProfiles_gather_def HandleProfileSummaryRequest_def
  GetProfileSummary_def receive_def CacheGet_ProfileSummaryType_def cache_read_def
  mcProfileKeys_def CacheSet_def row_demo_def scan_ProfileSummary_def ProfileSummaryType0_def
  GetPageCount_div GetMaxOffset_def Let_def summary_demo_def tables_demo_def so_demo_def

text \<open>
  C1, as stated, fails: the absence of unit errors is not enough. \<^verbatim>\<open>GetProfiles\<close> checks
  the offset against the maximal offset after the gather; below the page query returns the
  identifiers 7 and 5, no unit reports an error, and yet the result is the empty list with
  status 400, because the offset 21 is beyond the maximal offset of 25 records in pages
  of 10.
\<close>

theorem input_order_beyond_last_page_counterexample:
  "q_GetProfiles w_25 1 so_demo 10 21 = Rows (map Inr [7, 5]) None
   \<and> map Err (fst (fan_out 1 [7, 5] [1, 0] w_25)) = [None, None]
   \<and> fst (GetProfiles 1 so_demo 10 21 [1, 0] [0, 1] w_25) =
       ([], 0, 0, StatusBadRequest,
        Some ''not enough records, offset (21) would return an empty page.'')"
  by (simp add: eval_defs w_25_def fmt_d_def digits.simps digit_def)

text \<open>
  C1, amended. Let the data store answer the two queries of \<^verbatim>\<open>GetProfiles\<close> with a total
  and a page \<open>ids\<close>, let the units run in any order \<open>sched\<close> and their responses arrive in
  any order \<open>arrival\<close>, let no unit report an error, and let the offset not exceed the
  maximal offset of the total. Then \<^verbatim>\<open>GetProfiles\<close> returns status OK and a list of
  exactly \<open>length ids\<close> summaries whose \<open>i\<close>-th element is the summary that the unit of the
  \<open>i\<close>-th identifier fetched (the result of \<^verbatim>\<open>GetProfileSummary\<close> for \<open>ids ! i\<close> in the
  state in which that unit ran).
\<close>

theorem GetProfiles_returns_input_order:
  assumes conn: "faults w GetConnection = None"
      and count: "q_GetProfiles_count w siteId so limit offset = Row total'"
      and page: "q_GetProfiles w siteId so limit offset = Rows (map Inr ids) None"
      and sched: "mset sched = mset [0..<length ids]"
      and arrival: "mset arrival = mset [0..<length ids]"
      and noerr: "\<forall>r \<in> set (fst (fan_out siteId ids sched w)). Err r = None"
      and offset: "offset \<le> GetMaxOffset total' limit"
  shows "fst (GetProfiles siteId so limit offset sched arrival w) =
           (map (\<lambda>i. fst (fst (GetProfileSummary siteId (ids ! i)
                                  (state_before siteId ids sched w i))))
                [0..<length ids],
            total', GetPageCount total' limit, StatusOK, None)
         \<and> length (fst (fst (GetProfiles siteId so limit offset sched arrival w))) = length ids"
proof -
  let ?sent = "fst (fan_out siteId ids sched w)"
  let ?resps = "receive ?sent arrival"
  let ?fetched = "map (\<lambda>i. fst (fst (GetProfileSummary siteId (ids ! i)
                                        (state_before siteId ids sched w i))))
                      [0..<length ids]"
  have len: "length ?sent = length ids"
    using sched by (metis fan_out_length mset_eq_length length_upt diff_zero)
  have "mset ?resps = mset ?sent"
    using arrival len by (simp add: receive_mset)
  then have "set ?resps = set ?sent" by (rule mset_eq_setD)
  then have fe: "first_error ?resps = None"
    using noerr by (simp add: first_error_None)
  have lr: "length (sort_key Seq ?resps) = length ids"
    using sched arrival by (simp add: gather_length)
  have items: "map Item (sort_key Seq ?resps) = ?fetched"
  proof (rule nth_equalityI)
    show "length (map Item (sort_key Seq ?resps)) = length ?fetched"
      using lr by simp
  next
    fix i assume "i < length (map Item (sort_key Seq ?resps))"
    then have i: "i < length ids" using lr by simp
    then show "map Item (sort_key Seq ?resps) ! i = ?fetched ! i"
      using lr gather_in_order [OF sched arrival i, of siteId w]
      by (simp add: Item_Handle)
  qed
  have "fst (GetProfiles_gather siteId ids total' limit offset sched arrival w) =
          (map Item (sort_key Seq ?resps), total', GetPageCount total' limit, StatusOK, None)"
    using fe offset by (simp add: GetProfiles_gather_unfold)
  then have "fst (GetProfiles siteId so limit offset sched arrival w) =
          (?fetched, total', GetPageCount total' limit, StatusOK, None)"
    using conn count page items by (simp add: GetProfiles_def scan_ids_Inr)
  then show ?thesis by simp
qed

theorem GetProfiles_returns_input_order_witness:
  "fst (GetProfiles 1 so_demo 10 0 [1, 0] [0, 1] w_demo) =
     ([summary_demo 7, summary_demo 5], 2, 1, StatusOK, None)"
  using GetProfiles_returns_input_order [of w_demo 1 so_demo 10 0 2 "[7, 5]" "[1, 0]" "[0, 1]"]
  by (simp add: eval_defs)

section \<open>Errors and cache entries in the gather\<close>

lemma first_error_Some:
  "first_error rs = Some (s, e) \<Longrightarrow> \<exists>r \<in> set rs. Err r = Some e \<and> Status r = s"
  by (induction rs) (auto split: option.splits)

lemma first_error_prefix:
  "\<forall>x \<in> set pre. Err x = None \<Longrightarrow> Err r = Some e \<Longrightarrow>
   first_error (pre @ r # post) = Some (Status r, e)"
  by (induction pre) simp_all

lemma GetProfileSummary_frame:
  "cache_up (snd (GetProfileSummary s i w)) = cache_up w \<and>
   clock (snd (GetProfileSummary s i w)) = clock w \<and>
   mcTtl (snd (GetProfileSummary s i w)) = mcTtl w"
  by (simp add: GetProfileSummary_def CacheSet_def Let_def split: option.splits query_result.splits)


lemma CacheGet_ProfileSummaryType_CacheSet:
  "0 < mcTtl w \<Longrightarrow> CacheGet_ProfileSummaryType k w \<noteq> None \<Longrightarrow> 
   CacheGet_ProfileSummaryType k (CacheSet k' (VProfileSummary m) (mcTtl w) w) \<noteq> None"
  by (auto simp add: CacheGet_ProfileSummaryType_def cache_read_def CacheSet_def split: option.splits if_splits cache_value.splits)

lemma CacheGet_ProfileSummaryType_CacheSet_same:
  "0 < mcTtl w \<Longrightarrow> cache_up w \<Longrightarrow>
   CacheGet_ProfileSummaryType k (CacheSet k (VProfileSummary m) (mcTtl w) w) = Some m"
  by (simp add: CacheGet_ProfileSummaryType_def cache_read_def CacheSet_def)

lemma GetProfileSummary_keeps_entry:
  "0 < mcTtl w \<Longrightarrow> CacheGet_ProfileSummaryType k w \<noteq> None \<Longrightarrow>
   CacheGet_ProfileSummaryType k (snd (GetProfileSummary s i w)) \<noteq> None"
  by (simp add: GetProfileSummary_def Let_def CacheGet_ProfileSummaryType_CacheSet
           del: not_None_eq split: option.splits query_result.splits)

lemma GetProfileSummary_leaves_entry:
  "0 < mcTtl w \<Longrightarrow> cache_up w \<Longrightarrow> snd (snd (fst (GetProfileSummary s i w))) = None \<Longrightarrow>
   CacheGet_ProfileSummaryType (mcProfileKeys CacheSummary i) (snd (GetProfileSummary s i w)) \<noteq> None"
  by (auto simp add: GetProfileSummary_def Let_def CacheGet_ProfileSummaryType_CacheSet_same
           simp del: not_None_eq split: option.splits query_result.splits if_splits)

lemma Handle_snd: "snd (HandleProfileSummaryRequest s i q w) = snd (GetProfileSummary s i w)"
  by (simp add: HandleProfileSummaryRequest_def split: prod.splits)

lemma Handle_Err: "Err (fst (HandleProfileSummaryRequest s i q w)) = snd (snd (fst (GetProfileSummary s i w)))"
  by (simp add: HandleProfileSummaryRequest_def split: prod.splits)

lemma fan_out_frame:
  "cache_up (snd (fan_out s ids sched w)) = cache_up w \<and>
   mcTtl (snd (fan_out s ids sched w)) = mcTtl w"
  by (induction sched arbitrary: w)
     (simp_all add: fan_out_Cons Handle_snd GetProfileSummary_frame del: fan_out.simps(2))

lemma fan_out_keeps_entry:
  "0 < mcTtl w \<Longrightarrow> CacheGet_ProfileSummaryType k w \<noteq> None \<Longrightarrow>
   CacheGet_ProfileSummaryType k (snd (fan_out s ids sched w)) \<noteq> None"
proof (induction sched arbitrary: w)
  case Nil
  then show ?case by simp
next
  case (Cons a sched)
  let ?w1 = "snd (GetProfileSummary s (ids ! a) w)"
  have "0 < mcTtl ?w1" using Cons.prems(1) by (simp add: GetProfileSummary_frame)
  moreover have "CacheGet_ProfileSummaryType k ?w1 \<noteq> None"
    using Cons.prems by (rule GetProfileSummary_keeps_entry)
  ultimately have "CacheGet_ProfileSummaryType k (snd (fan_out s ids sched ?w1)) \<noteq> None"
    by (rule Cons.IH)
  then show ?case by (simp add: fan_out_Cons Handle_snd del: fan_out.simps(2))
qed

lemma fan_out_leaves_entries:
  assumes "0 < mcTtl w" "cache_up w" "i \<in> set sched"
      and "Err (fst (HandleProfileSummaryRequest s (ids ! i) (int i) (state_before s ids sched w i))) = None"
  shows "CacheGet_ProfileSummaryType (mcProfileKeys CacheSummary (ids ! i)) (snd (fan_out s ids sched w)) \<noteq> None"
  using assms
proof (induction sched arbitrary: w)
  case Nil
  then show ?case by simp
next
  case (Cons a sched)
  let ?w1 = "snd (GetProfileSummary s (ids ! a) w)"
  have ttl: "0 < mcTtl ?w1" and up: "cache_up ?w1"
    using Cons.prems(1,2) by (simp_all add: GetProfileSummary_frame)
  show ?case
  proof (cases "a = i")
    case True
    then have "CacheGet_ProfileSummaryType (mcProfileKeys CacheSummary (ids ! i)) ?w1 \<noteq> None"
      using Cons.prems by (simp add: Handle_Err GetProfileSummary_leaves_entry)
    then have "CacheGet_ProfileSummaryType (mcProfileKeys CacheSummary (ids ! i)) (snd (fan_out s ids sched ?w1)) \<noteq> None"
      using ttl by (intro fan_out_keeps_entry)
    then show ?thesis by (simp add: fan_out_Cons Handle_snd del: fan_out.simps(2))
  next
    case False
    then have "CacheGet_ProfileSummaryType (mcProfileKeys CacheSummary (ids ! i)) (snd (fan_out s ids sched ?w1)) \<noteq> None"
      using Cons.prems ttl up by (intro Cons.IH) (simp_all add: Handle_snd)
    then show ?thesis by (simp add: fan_out_Cons Handle_snd del: fan_out.simps(2))
  qed
qed

lemma first_error_sc_Some:
  "first_error_sc rs = Some (s, e) \<Longrightarrow> \<exists>r \<in> set rs. sc_Err r = Some e \<and> sc_Status r = s"
  by (induction rs) (auto split: option.splits)

lemma first_error_sc_None: "first_error_sc rs = None \<longleftrightarrow> (\<forall>r \<in> set rs. sc_Err r = None)"
  by (induction rs) (auto split: option.splits)

lemma first_error_sc_prefix:
  "\<forall>x \<in> set pre. sc_Err x = None \<Longrightarrow> sc_Err r = Some e \<Longrightarrow>
   first_error_sc (pre @ r # post) = Some (sc_Status r, e)"
  by (induction pre) simp_all

lemma fan_out_ignored_Cons:
  "fan_out_ignored fetch siteId ems (k # sched) w =
     (fst (HandleSummaryContainerRequest fetch siteId (ItemTypeId (ems ! k)) (ItemId (ems ! k))
             (ProfileId (ems ! k)) (int k) w)
        # fst (fan_out_ignored fetch siteId ems sched
                 (snd (HandleSummaryContainerRequest fetch siteId (ItemTypeId (ems ! k))
                         (ItemId (ems ! k)) (ProfileId (ems ! k)) (int k) w))),
      snd (fan_out_ignored fetch siteId ems sched
             (snd (HandleSummaryContainerRequest fetch siteId (ItemTypeId (ems ! k))
                     (ItemId (ems ! k)) (ProfileId (ems ! k)) (int k) w))))"
  by (simp split: prod.splits)

lemma GetIgnored_gather_unfold:
  "GetIgnored_gather fetch siteId ems total' pages sched arrival w =
     (case first_error_sc (receive (fst (fan_out_ignored fetch siteId ems sched w)) arrival) of
        Some (status, err) \<Rightarrow>
          (([], 0, 0, status, Some err), snd (fan_out_ignored fetch siteId ems sched w))
      | None \<Rightarrow>
          ((map (\<lambda>(m, r). m\<lparr>Item_ig := Some (sc_Summary r)\<rparr>)
              (zip ems (sort_key sc_Seq
                          (receive (fst (fan_out_ignored fetch siteId ems sched w)) arrival))),
            total', pages, StatusOK, None),
           snd (fan_out_ignored fetch siteId ems sched w)))"
  by (cases "fan_out_ignored fetch siteId ems sched w")
     (simp add: GetIgnored_gather_def Let_def split: option.splits)

lemma fan_out_ignored_length:
  "length (fst (fan_out_ignored fetch siteId ems sched w)) = length sched"
  by (induction sched arbitrary: w)
     (simp_all add: fan_out_ignored_Cons del: fan_out_ignored.simps(2))

lemmas eval_defs2 = eval_defs w_fail_def fetch_demo_def ignore_demo_def fmt_d_def digits.simps digit_def
  GetIgnored_def GetIgnored_gather_def HandleSummaryContainerRequest_def

lemma GetProfiles_all_or_nothing:
  assumes conn: "faults w GetConnection = None"
      and count: "q_GetProfiles_count w siteId so limit offset = Row total'"
      and page: "q_GetProfiles w siteId so limit offset = Rows (map Inr ids) None"
      and sched: "mset sched = mset [0..<length ids]"
      and arrival: "mset arrival = mset [0..<length ids]"
      and failed: "\<exists>r \<in> set (fst (fan_out siteId ids sched w)). Err r \<noteq> None"
  shows "(\<exists>r \<in> set (fst (fan_out siteId ids sched w)). \<exists>e. Err r = Some e \<and>
            GetProfiles siteId so limit offset sched arrival w =
              (([], 0, 0, Status r, Some e), snd (fan_out siteId ids sched w)))
       \<and> (cache_up w \<longrightarrow> 0 < mcTtl w \<longrightarrow>
            (\<forall>i < length ids.
               Err (fst (HandleProfileSummaryRequest siteId (ids ! i) (int i)
                           (state_before siteId ids sched w i))) = None \<longrightarrow>
               CacheGet_ProfileSummaryType (mcProfileKeys CacheSummary (ids ! i))
                 (snd (GetProfiles siteId so limit offset sched arrival w)) \<noteq> None))"
proof -
  let ?sent = "fst (fan_out siteId ids sched w)"
  let ?resps = "receive ?sent arrival"
  have len: "length ?sent = length ids"
    using sched by (metis fan_out_length mset_eq_length length_upt diff_zero)
  have ms: "mset ?resps = mset ?sent"
    using arrival len by (simp add: receive_mset)
  then have sets: "set ?resps = set ?sent" by (rule mset_eq_setD)
  then have "first_error ?resps \<noteq> None"
    using failed by (simp add: first_error_None)
  then obtain s e where fe: "first_error ?resps = Some (s, e)" by auto
  then obtain r where r: "r \<in> set ?sent" "Err r = Some e" "Status r = s"
    using first_error_Some sets by blast
  have whole: "GetProfiles siteId so limit offset sched arrival w =
      GetProfiles_gather siteId ids total' limit offset sched arrival w"
    using conn count page by (simp add: GetProfiles_def scan_ids_Inr)
  have res: "GetProfiles siteId so limit offset sched arrival w =
      (([], 0, 0, Status r, Some e), snd (fan_out siteId ids sched w))"
    using fe r by (simp add: whole GetProfiles_gather_unfold)
  have part1: "\<exists>r \<in> set ?sent. \<exists>e. Err r = Some e \<and>
            GetProfiles siteId so limit offset sched arrival w =
              (([], 0, 0, Status r, Some e), snd (fan_out siteId ids sched w))"
    using r res by blast
  have part2: "cache_up w \<longrightarrow> 0 < mcTtl w \<longrightarrow>
            (\<forall>i < length ids.
               Err (fst (HandleProfileSummaryRequest siteId (ids ! i) (int i)
                           (state_before siteId ids sched w i))) = None \<longrightarrow>
               CacheGet_ProfileSummaryType (mcProfileKeys CacheSummary (ids ! i))
                 (snd (GetProfiles siteId so limit offset sched arrival w)) \<noteq> None)"
  proof (intro impI allI)
    fix i
    assume up: "cache_up w" and ttl: "0 < mcTtl w" and i: "i < length ids"
       and ok: "Err (fst (HandleProfileSummaryRequest siteId (ids ! i) (int i)
                           (state_before siteId ids sched w i))) = None"
    have "i \<in> set sched"
      using sched i by (metis atLeastLessThan_iff mset_eq_setD set_upt zero_le)
    then have "CacheGet_ProfileSummaryType (mcProfileKeys CacheSummary (ids ! i))
                 (snd (fan_out siteId ids sched w)) \<noteq> None"
      using ttl up ok by (intro fan_out_leaves_entries)
    then show "CacheGet_ProfileSummaryType (mcProfileKeys CacheSummary (ids ! i))
                 (snd (GetProfiles siteId so limit offset sched arrival w)) \<noteq> None"
      by (simp add: res)
  qed
  show ?thesis using part1 part2 by blast
qed

lemma GetIgnored_all_or_nothing:
  fixes fetch :: "'a fetcher" and ems :: "'a IgnoreType list"
  assumes conn: "faults w GetConnection = None"
      and rows: "q_GetIgnored w profileId limit offset = Rows rows None"
      and scanned: "scan_ignored w rows 0 [] = Inr (total', ems)"
      and in_range: "offset \<le> GetMaxOffset total' limit"
      and sched: "mset sched = mset [0..<length ems]"
      and arrival: "mset arrival = mset [0..<length ems]"
      and failed: "\<exists>r \<in> set (fst (fan_out_ignored fetch siteId ems sched w)). sc_Err r \<noteq> None"
  shows "\<exists>r \<in> set (fst (fan_out_ignored fetch siteId ems sched w)). \<exists>e. sc_Err r = Some e \<and>
            GetIgnored fetch siteId profileId limit offset sched arrival w =
              (([], 0, 0, sc_Status r, Some e), snd (fan_out_ignored fetch siteId ems sched w))"
proof -
  let ?sent = "fst (fan_out_ignored fetch siteId ems sched w)"
  let ?resps = "receive ?sent arrival"
  have len: "length ?sent = length ems"
    using sched by (metis fan_out_ignored_length mset_eq_length length_upt diff_zero)
  have "mset ?resps = mset ?sent"
    using arrival len by (simp add: receive_mset)
  then have sets: "set ?resps = set ?sent" by (rule mset_eq_setD)
  then have "first_error_sc ?resps \<noteq> None"
    using failed by (simp add: first_error_sc_None)
  then obtain s e where fe: "first_error_sc ?resps = Some (s, e)" by auto
  then obtain r where r: "r \<in> set ?sent" "sc_Err r = Some e" "sc_Status r = s"
    using first_error_sc_Some sets by blast
  have "GetIgnored fetch siteId profileId limit offset sched arrival w =
      GetIgnored_gather fetch siteId ems total' (GetPageCount total' limit) sched arrival w"
    using conn rows scanned in_range by (simp add: GetIgnored_def Let_def)
  then have "GetIgnored fetch siteId profileId limit offset sched arrival w =
      (([], 0, 0, sc_Status r, Some e), snd (fan_out_ignored fetch siteId ems sched w))"
    using fe r by (simp add: GetIgnored_gather_unfold)
  then show ?thesis using r by blast
qed

text \<open>
  C2. When the page queries of \<^verbatim>\<open>GetProfiles\<close> succeed and at least one of its units
  reports an error, \<^verbatim>\<open>GetProfiles\<close> returns the empty list, zero totals and the status and
  error of one of the failed units; the world it returns is the one left by the run of all
  units, and with a working cache and a positive lifetime the summary of every unit that
  succeeded is in the cache afterwards. Independently, when the page query of
  \<^verbatim>\<open>GetIgnored\<close> succeeds with an offset in range (its offset check precedes the fan-out)
  and at least one of its units reports an error, \<^verbatim>\<open>GetIgnored\<close> returns the empty list,
  zero totals and the status and error of one of the failed units, in the world left by
  the run of all units.
\<close>

theorem gather_is_all_or_nothing:
  fixes fetch :: "'a fetcher" and ems :: "'a IgnoreType list"
  shows "(faults w GetConnection = None \<longrightarrow>
          q_GetProfiles_count w siteId so limit offset = Row total' \<longrightarrow>
          q_GetProfiles w siteId so limit offset = Rows (map Inr ids) None \<longrightarrow>
          mset sched = mset [0..<length ids] \<longrightarrow>
          mset arrival = mset [0..<length ids] \<longrightarrow>
          (\<exists>r \<in> set (fst (fan_out siteId ids sched w)). Err r \<noteq> None) \<longrightarrow>
            (\<exists>r \<in> set (fst (fan_out siteId ids sched w)). \<exists>e. Err r = Some e \<and>
               GetProfiles siteId so limit offset sched arrival w =
                 (([], 0, 0, Status r, Some e), snd (fan_out siteId ids sched w)))
          \<and> (cache_up w \<longrightarrow> 0 < mcTtl w \<longrightarrow>
               (\<forall>i < length ids.
                  Err (fst (HandleProfileSummaryRequest siteId (ids ! i) (int i)
                              (state_before siteId ids sched w i))) = None \<longrightarrow>
                  CacheGet_ProfileSummaryType (mcProfileKeys CacheSummary (ids ! i))
                    (snd (GetProfiles siteId so limit offset sched arrival w)) \<noteq> None)))
       \<and> (faults w2 GetConnection = None \<longrightarrow>
          q_GetIgnored w2 profileId limit2 offset2 = Rows rows None \<longrightarrow>
          scan_ignored w2 rows 0 [] = Inr (total2, ems) \<longrightarrow>
          offset2 \<le> GetMaxOffset total2 limit2 \<longrightarrow>
          mset sched2 = mset [0..<length ems] \<longrightarrow>
          mset arrival2 = mset [0..<length ems] \<longrightarrow>
          (\<exists>r \<in> set (fst (fan_out_ignored fetch siteId2 ems sched2 w2)). sc_Err r \<noteq> None) \<longrightarrow>
            (\<exists>r \<in> set (fst (fan_out_ignored fetch siteId2 ems sched2 w2)). \<exists>e. sc_Err r = Some e \<and>
               GetIgnored fetch siteId2 profileId limit2 offset2 sched2 arrival2 w2 =
                 (([], 0, 0, sc_Status r, Some e), snd (fan_out_ignored fetch siteId2 ems sched2 w2))))"
proof (rule conjI)
  show "faults w GetConnection = None \<longrightarrow>
          q_GetProfiles_count w siteId so limit offset = Row total' \<longrightarrow>
          q_GetProfiles w siteId so limit offset = Rows (map Inr ids) None \<longrightarrow>
          mset sched = mset [0..<length ids] \<longrightarrow>
          mset arrival = mset [0..<length ids] \<longrightarrow>
          (\<exists>r \<in> set (fst (fan_out siteId ids sched w)). Err r \<noteq> None) \<longrightarrow>
            (\<exists>r \<in> set (fst (fan_out siteId ids sched w)). \<exists>e. Err r = Some e \<and>
               GetProfiles siteId so limit offset sched arrival w =
                 (([], 0, 0, Status r, Some e), snd (fan_out siteId ids sched w)))
          \<and> (cache_up w \<longrightarrow> 0 < mcTtl w \<longrightarrow>
               (\<forall>i < length ids.
                  Err (fst (HandleProfileSummaryRequest siteId (ids ! i) (int i)
                              (state_before siteId ids sched w i))) = None \<longrightarrow>
                  CacheGet_ProfileSummaryType (mcProfileKeys CacheSummary (ids ! i))
                    (snd (GetProfiles siteId so limit offset sched arrival w)) \<noteq> None))"
    using GetProfiles_all_or_nothing [of w siteId so limit offset total' ids sched arrival]
    by blast
  show "faults w2 GetConnection = None \<longrightarrow>
          q_GetIgnored w2 profileId limit2 offset2 = Rows rows None \<longrightarrow>
          scan_ignored w2 rows 0 [] = Inr (total2, ems) \<longrightarrow>
          offset2 \<le> GetMaxOffset total2 limit2 \<longrightarrow>
          mset sched2 = mset [0..<length ems] \<longrightarrow>
          mset arrival2 = mset [0..<length ems] \<longrightarrow>
          (\<exists>r \<in> set (fst (fan_out_ignored fetch siteId2 ems sched2 w2)). sc_Err r \<noteq> None) \<longrightarrow>
            (\<exists>r \<in> set (fst (fan_out_ignored fetch siteId2 ems sched2 w2)). \<exists>e. sc_Err r = Some e \<and>
               GetIgnored fetch siteId2 profileId limit2 offset2 sched2 arrival2 w2 =
                 (([], 0, 0, sc_Status r, Some e), snd (fan_out_ignored fetch siteId2 ems sched2 w2)))"
    using GetIgnored_all_or_nothing [of w2 profileId limit2 offset2 rows total2 ems sched2 arrival2 fetch siteId2]
    by blast
qed

theorem gather_is_all_or_nothing_witness:
  "fst (GetProfiles 1 so_demo 10 0 [0, 1] [1, 0] w_fail) =
     ([], 0, 0, StatusNotFound, Some ''Resource with profile ID 6 not found'')
   \<and> CacheGet_ProfileSummaryType (mcProfileKeys CacheSummary 7)
        (snd (GetProfiles 1 so_demo 10 0 [0, 1] [1, 0] w_fail)) \<noteq> None
   \<and> fst (GetIgnored fetch_demo 1 5 10 0 [0, 1] [1, 0] w_fail) =
     ([], 0, 0, StatusNotFound, Some ''Resource with profile ID 6 not found'')"
proof -
  have h1: "faults w_fail GetConnection = None"
   and h2: "q_GetProfiles_count w_fail 1 so_demo 10 0 = Row 2"
   and h3: "q_GetProfiles w_fail 1 so_demo 10 0 = Rows (map Inr [7, 6]) None"
   and h4: "mset [0, 1] = mset [0..<length [7, 6 :: int]]"
   and h5: "mset [1, 0] = mset [0..<length [7, 6 :: int]]"
   and h6: "\<exists>r \<in> set (fst (fan_out 1 [7, 6] [0, 1] w_fail)). Err r \<noteq> None"
   and h7: "q_GetIgnored w_fail 5 10 0 = Rows [Inr (2, 5, 3, 7), Inr (2, 5, 3, 6)] None"
   and h8: "scan_ignored w_fail [Inr (2, 5, 3, 7), Inr (2, 5, 3, 6)] 0 [] =
              Inr (2, [ignore_demo 7, ignore_demo 6])"
   and h9: "0 \<le> GetMaxOffset 2 10"
   and h10: "mset [0, 1] = mset [0..<length [ignore_demo 7, ignore_demo 6]]"
   and h11: "mset [1, 0] = mset [0..<length [ignore_demo 7, ignore_demo 6]]"
   and h12: "\<exists>r \<in> set (fst (fan_out_ignored fetch_demo 1 [ignore_demo 7, ignore_demo 6] [0, 1] w_fail)).
               sc_Err r \<noteq> None"
    by (simp_all add: eval_defs2)
  note P = gather_is_all_or_nothing [THEN conjunct1, rule_format, OF h1 h2 h3 h4 h5 h6]
  note I = gather_is_all_or_nothing [THEN conjunct2, rule_format, OF h1 h7 h8 h9 h10 h11 h12]
  have ok0: "Err (fst (HandleProfileSummaryRequest 1 ([7, 6] ! 0) (int 0)
                         (state_before 1 [7, 6] [0, 1] w_fail 0))) = None"
    by (simp add: eval_defs2)
  have up: "cache_up w_fail" "0 < mcTtl w_fail"
    by (simp_all add: w_fail_def w_demo_def)
  have "CacheGet_ProfileSummaryType (mcProfileKeys CacheSummary ([7, 6] ! 0))
          (snd (GetProfiles 1 so_demo 10 0 [0, 1] [1, 0] w_fail)) \<noteq> None"
    using P [THEN conjunct2, rule_format, OF up, of 0] ok0 by simp
  moreover have "fst (fst (GetProfiles 1 so_demo 10 0 [0, 1] [1, 0] w_fail)) = []"
    using P [THEN conjunct1] by auto
  moreover have "fst (GetProfiles 1 so_demo 10 0 [0, 1] [1, 0] w_fail) =
     ([], 0, 0, StatusNotFound, Some ''Resource with profile ID 6 not found'')"
    by (simp add: eval_defs2)
  moreover have "fst (fst (GetIgnored fetch_demo 1 5 10 0 [0, 1] [1, 0] w_fail)) = []"
    using I by auto
  moreover have "fst (GetIgnored fetch_demo 1 5 10 0 [0, 1] [1, 0] w_fail) =
     ([], 0, 0, StatusNotFound, Some ''Resource with profile ID 6 not found'')"
    by (simp add: eval_defs2)
  ultimately show ?thesis by simp
qed

section \<open>Which failure the gather surfaces\<close>

text \<open>
  C6, as stated, fails: the error scan of \<^verbatim>\<open>GetProfiles\<close> runs over the responses in
  the order of their arrival, before \<^verbatim>\<open>sort.Sort\<close>. Below, the units of positions 0
  and 1 both fail; the response of position 1 arrives first and its status and error are
  returned, not those of position 0.
\<close>

theorem error_scan_after_sort_counterexample:
  "fst (fan_out 1 [7, 5] [0, 1] w_two_failures) = [failed_7, failed_5]
   \<and> Seq failed_7 < Seq failed_5
   \<and> fst (GetProfiles 1 so_demo 10 0 [0, 1] [1, 0] w_two_failures) =
       ([], 0, 0, Status failed_5, Err failed_5)"
  by (simp add: eval_defs2 w_two_failures_def failed_7_def failed_5_def)

text \<open>
  C6, amended. In \<^verbatim>\<open>GetProfiles\<close> the error scan runs over the responses in the order
  in which they were received, before they are sorted by \<open>Seq\<close>: when the responses
  received before \<open>r\<close> carry no error and \<open>r\<close> carries one, the status and error returned
  for the page are those of \<open>r\<close>. The same holds, independently, for \<^verbatim>\<open>GetIgnored\<close>.
\<close>

theorem gather_surfaces_first_received_failure:
  fixes fetch :: "'a fetcher" and ems :: "'a IgnoreType list"
  shows "(faults w GetConnection = None \<longrightarrow>
          q_GetProfiles_count w siteId so limit offset = Row total' \<longrightarrow>
          q_GetProfiles w siteId so limit offset = Rows (map Inr ids) None \<longrightarrow>
          receive (fst (fan_out siteId ids sched w)) arrival = pre @ r # post \<longrightarrow>
          (\<forall>x \<in> set pre. Err x = None) \<longrightarrow>
          Err r = Some e \<longrightarrow>
            fst (GetProfiles siteId so limit offset sched arrival w) =
              ([], 0, 0, Status r, Some e))
       \<and> (faults w2 GetConnection = None \<longrightarrow>
          q_GetIgnored w2 profileId limit2 offset2 = Rows rows None \<longrightarrow>
          scan_ignored w2 rows 0 [] = Inr (total2, ems) \<longrightarrow>
          offset2 \<le> GetMaxOffset total2 limit2 \<longrightarrow>
          receive (fst (fan_out_ignored fetch siteId2 ems sched2 w2)) arrival2
            = pre2 @ r2 # post2 \<longrightarrow>
          (\<forall>x \<in> set pre2. sc_Err x = None) \<longrightarrow>
          sc_Err r2 = Some e2 \<longrightarrow>
            fst (GetIgnored fetch siteId2 profileId limit2 offset2 sched2 arrival2 w2) =
              ([], 0, 0, sc_Status r2, Some e2))"
proof (intro conjI impI)
  assume conn: "faults w GetConnection = None"
     and count: "q_GetProfiles_count w siteId so limit offset = Row total'"
     and page: "q_GetProfiles w siteId so limit offset = Rows (map Inr ids) None"
     and received: "receive (fst (fan_out siteId ids sched w)) arrival = pre @ r # post"
     and pre: "\<forall>x \<in> set pre. Err x = None"
     and r: "Err r = Some e"
  have "first_error (receive (fst (fan_out siteId ids sched w)) arrival) = Some (Status r, e)"
    using received pre r by (simp add: first_error_prefix)
  then show "fst (GetProfiles siteId so limit offset sched arrival w) =
      ([], 0, 0, Status r, Some e)"
    using conn count page by (simp add: GetProfiles_def scan_ids_Inr GetProfiles_gather_unfold)
next
  assume conn: "faults w2 GetConnection = None"
     and rows: "q_GetIgnored w2 profileId limit2 offset2 = Rows rows None"
     and scanned: "scan_ignored w2 rows 0 [] = Inr (total2, ems)"
     and in_range: "offset2 \<le> GetMaxOffset total2 limit2"
     and received:
       "receive (fst (fan_out_ignored fetch siteId2 ems sched2 w2)) arrival2 = pre2 @ r2 # post2"
     and pre: "\<forall>x \<in> set pre2. sc_Err x = None"
     and r: "sc_Err r2 = Some e2"
  have "first_error_sc (receive (fst (fan_out_ignored fetch siteId2 ems sched2 w2)) arrival2) =
      Some (sc_Status r2, e2)"
    using received pre r by (simp add: first_error_sc_prefix)
  then show "fst (GetIgnored fetch siteId2 profileId limit2 offset2 sched2 arrival2 w2) =
           ([], 0, 0, sc_Status r2, Some e2)"
    using conn rows scanned in_range
    by (simp add: GetIgnored_def Let_def GetIgnored_gather_unfold)
qed

theorem gather_surfaces_first_received_failure_witness:
  "fst (GetProfiles 1 so_demo 10 0 [0, 1] [1, 0] w_two_failures) =
     ([], 0, 0, StatusInternalServerError, Some ''Database query failed: boom'')
   \<and> fst (GetIgnored fetch_demo 1 5 10 0 [0, 1] [1, 0] w_two_failures) =
     ([], 0, 0, StatusInternalServerError, Some ''Database query failed: boom'')"
proof -
  let ?r2 = "\<lparr>sc_Summary = ProfileSummaryType0,
              sc_Err = Some ''Database query failed: boom'',
              sc_Status = StatusInternalServerError, sc_Seq = 1\<rparr>"
  let ?p2 = "\<lparr>sc_Summary = ProfileSummaryType0,
              sc_Err = Some ''Resource with profile ID 7 not found'',
              sc_Status = StatusNotFound, sc_Seq = 0\<rparr>"
  have h1: "faults w_two_failures GetConnection = None"
   and h2: "q_GetProfiles_count w_two_failures 1 so_demo 10 0 = Row 2"
   and h3: "q_GetProfiles w_two_failures 1 so_demo 10 0 = Rows (map Inr [7, 5]) None"
   and h4: "receive (fst (fan_out 1 [7, 5] [0, 1] w_two_failures)) [1, 0]
              = [] @ failed_5 # [failed_7]"
   and h6: "Err failed_5 = Some ''Database query failed: boom''"
   and h7: "q_GetIgnored w_two_failures 5 10 0 = Rows [Inr (2, 5, 3, 7), Inr (2, 5, 3, 9)] None"
   and h8: "scan_ignored w_two_failures [Inr (2, 5, 3, 7), Inr (2, 5, 3, 9)] 0 [] =
              Inr (2, [ignore_demo 7, ignore_demo 9])"
   and h9: "0 \<le> GetMaxOffset 2 10"
   and h10: "receive (fst (fan_out_ignored fetch_demo 1 [ignore_demo 7, ignore_demo 9] [0, 1]
                             w_two_failures)) [1, 0]
              = [] @ ?r2 # [?p2]"
   and h12: "sc_Err ?r2 = Some ''Database query failed: boom''"
    by (simp_all add: eval_defs2 w_two_failures_def failed_7_def failed_5_def)
  have h5: "x \<in> set ([] :: ProfileSummaryRequest list) \<Longrightarrow> Err x = None" for x
    by simp
  have h11: "x \<in> set ([] :: ProfileSummaryType SummaryContainerRequest list) \<Longrightarrow>
             sc_Err x = None" for x
    by simp
  note P = gather_surfaces_first_received_failure
             [THEN conjunct1, rule_format, OF h1 h2 h3 h4 h5 h6]
  note I = gather_surfaces_first_received_failure
             [THEN conjunct2, rule_format, OF h1 h7 h8 h9 h10 h11 h12]
  show ?thesis
    using P I by (simp add: failed_5_def)
qed

section \<open>Ignores\<close>

lemma IgnoreType_Validate_faults [simp]:
  "IgnoreType_Validate m (w\<lparr>faults := f\<rparr>) = IgnoreType_Validate m w"
  by (simp add: IgnoreType_Validate_def)

lemmas eval_defs3 = IgnoreType_Update_def IgnoreType_Delete_def IgnoreType_Validate_def
  Exec_CreateIgnore_def Exec_DeleteIgnore_def tx_Begin_def tx_Commit_def fail_exec_def

text \<open>
  C10. For an ignore that passes \<^verbatim>\<open>Validate\<close>, and whatever the data store does to the
  statement and to the commit (\<open>f\<close> is any assignment of failures that lets
  \<^verbatim>\<open>h.GetTransaction\<close> succeed), \<^verbatim>\<open>Update\<close> and \<^verbatim>\<open>Delete\<close> return
  \<^verbatim>\<open>(http.StatusOK, nil)\<close>.
\<close>

theorem IgnoreType_Update_Delete_always_OK:
  assumes valid: "snd (fst (IgnoreType_Validate m w)) = None"
      and tx: "f GetTransaction = None"
  shows "fst (IgnoreType_Update m (w\<lparr>faults := f\<rparr>)) = (StatusOK, None)
       \<and> fst (IgnoreType_Delete m (w\<lparr>faults := f\<rparr>)) = (StatusOK, None)"
  using valid tx
  by (cases "IgnoreType_Validate m w")
     (auto simp add: IgnoreType_Update_def IgnoreType_Delete_def Let_def split: prod.splits option.splits)

theorem IgnoreType_Update_Delete_always_OK_witness:
  "fst (IgnoreType_Update (ignore_demo 7) (w_demo\<lparr>faults := fail_exec\<rparr>)) = (StatusOK, None)
   \<and> ignores_tbl (db (snd (snd (IgnoreType_Update (ignore_demo 7) (w_demo\<lparr>faults := fail_exec\<rparr>))))) = []
   \<and> fst (IgnoreType_Update (ignore_demo 7) w_demo) = (StatusOK, None)
   \<and> ignores_tbl (db (snd (snd (IgnoreType_Update (ignore_demo 7) w_demo)))) = [(5, 3, 7)]
   \<and> fst (IgnoreType_Delete (ignore_demo 7) (w_demo\<lparr>faults := fail_exec\<rparr>)) = (StatusOK, None)"
  using IgnoreType_Update_Delete_always_OK [of "ignore_demo 7" w_demo fail_exec]
  by (simp add: eval_defs3 eval_defs2)

section \<open>Summary fetchers: not found, and a failing cache\<close>

lemma GetProfileSummary_no_row:
  assumes "id' \<noteq> 0"
      and "CacheGet_ProfileSummaryType (mcProfileKeys CacheSummary id') w = None"
      and "faults w GetConnection = None"
      and "q_GetProfileSummary w siteId id' = ErrNoRows"
  shows "GetProfileSummary siteId id' w =
           ((ProfileSummaryType0, StatusNotFound,
             Some (''Resource with profile ID '' @ fmt_d id' @ '' not found'')), w)"
  using assms by (simp add: GetProfileSummary_def)

lemma GetEventSummary_no_row:
  assumes "id' \<noteq> 0"
      and "CacheGet_EventSummaryType (mcEventKeys CacheSummary id') w = None"
      and "faults w GetConnection = None"
      and "q_GetEventSummary w id' = ErrNoRows"
  shows "GetEventSummary siteId id' profileId w =
           ((EventSummaryType0, StatusInternalServerError,
             Some (''Event with ID '' @ fmt_d id' @ '' not found'')), w)"
  using assms by (simp add: GetEventSummary_def)

lemmas eval_defs4 = eval_defs2 GetEventSummary_def CacheGet_EventSummaryType_def mcEventKeys_def

text \<open>
  C8. With no row in the data store, \<^verbatim>\<open>GetProfileSummary\<close> returns
  \<^verbatim>\<open>http.StatusNotFound\<close> and leaves the cache as it was (first lemma above), and so does
  \<^verbatim>\<open>GetEventSummary\<close> leave the cache, but its status is
  \<^verbatim>\<open>http.StatusInternalServerError\<close> (second lemma). The run below is the failing input:
  event 42, which has no row, asked for on site 1 with an empty cache.
\<close>

theorem GetEventSummary_no_row_is_internal_error:
  "GetEventSummary 1 42 0 w_demo =
     ((EventSummaryType0, StatusInternalServerError, Some ''Event with ID 42 not found''), w_demo)
   \<and> q_GetEventSummary w_demo 42 = ErrNoRows
   \<and> GetProfileSummary 1 42 w_demo =
     ((ProfileSummaryType0, StatusNotFound, Some ''Resource with profile ID 42 not found''), w_demo)"
  by (simp add: eval_defs4)

text \<open>
  C9. Whenever the cache read of \<^verbatim>\<open>GetProfileSummary\<close> or \<^verbatim>\<open>IsAttending\<close> yields no
  value of the requested type (the service does not answer, the key is absent or expired,
  or the entry has another shape), the function returns what it returns on an empty,
  working cache with the same data store; with a row (or rows) in the store it returns the
  store's result without error and calls the cache write with it.
\<close>

theorem cache_failure_is_a_miss:
  assumes miss1: "CacheGet_ProfileSummaryType (mcProfileKeys CacheSummary id') w = None"
      and miss2: "\<not> snd (CacheGetInt64Slice (mcEventKeys CacheProfileIds eventId) w)"
  shows "fst (GetProfileSummary siteId id' w) =
           fst (GetProfileSummary siteId id' (w\<lparr>cache := Map.empty, cache_up := True\<rparr>))
       \<and> fst (IsAttending profileId eventId w) =
           fst (IsAttending profileId eventId (w\<lparr>cache := Map.empty, cache_up := True\<rparr>))
       \<and> (id' \<noteq> 0 \<longrightarrow> faults w GetConnection = None \<longrightarrow>
            (\<forall>r. q_GetProfileSummary w siteId id' = Row r \<longrightarrow>
               GetProfileSummary siteId id' w =
                 ((scan_ProfileSummary r, StatusOK, None),
                  CacheSet (mcProfileKeys CacheSummary id')
                    (VProfileSummary (scan_ProfileSummary r)) (mcTtl w) w)))
       \<and> (profileId \<noteq> 0 \<longrightarrow> eventId \<noteq> 0 \<longrightarrow> faults w GetConnection = None \<longrightarrow>
            (\<forall>rows e. q_attendees w eventId = Rows rows e \<longrightarrow>
               IsAttending profileId eventId w =
                 ((is_among profileId (map (\<lambda>r. case r of Inl _ \<Rightarrow> 0 | Inr i \<Rightarrow> i) rows), None),
                  CacheSetInt64Slice (mcEventKeys CacheProfileIds eventId)
                    (map (\<lambda>r. case r of Inl _ \<Rightarrow> 0 | Inr i \<Rightarrow> i) rows) (mcTtl w) w)))"
proof -
  have e1: "CacheGet_ProfileSummaryType k (w\<lparr>cache := Map.empty, cache_up := True\<rparr>) = None" for k
    by (simp add: CacheGet_ProfileSummaryType_def cache_read_def)
  have e2: "CacheGetInt64Slice k (w\<lparr>cache := Map.empty, cache_up := True\<rparr>) = ([], False)" for k
    by (simp add: CacheGetInt64Slice_def cache_read_def)
  have m2: "CacheGetInt64Slice (mcEventKeys CacheProfileIds eventId) w = ([], False)"
    using miss2 by (auto simp add: CacheGetInt64Slice_def split: option.splits cache_value.splits)
  have a: "fst (GetProfileSummary siteId id' w) =
           fst (GetProfileSummary siteId id' (w\<lparr>cache := Map.empty, cache_up := True\<rparr>))"
    using miss1 by (simp add: GetProfileSummary_def e1 Let_def split: option.splits query_result.splits)
  have b: "fst (IsAttending profileId eventId w) =
           fst (IsAttending profileId eventId (w\<lparr>cache := Map.empty, cache_up := True\<rparr>))"
    by (simp add: IsAttending_def m2 e2 Let_def split: option.splits rows_result.splits)
  have c: "id' \<noteq> 0 \<longrightarrow> faults w GetConnection = None \<longrightarrow>
            (\<forall>r. q_GetProfileSummary w siteId id' = Row r \<longrightarrow>
               GetProfileSummary siteId id' w =
                 ((scan_ProfileSummary r, StatusOK, None),
                  CacheSet (mcProfileKeys CacheSummary id')
                    (VProfileSummary (scan_ProfileSummary r)) (mcTtl w) w))"
    using miss1 by (simp add: GetProfileSummary_def Let_def)
  have d: "profileId \<noteq> 0 \<longrightarrow> eventId \<noteq> 0 \<longrightarrow> faults w GetConnection = None \<longrightarrow>
            (\<forall>rows e. q_attendees w eventId = Rows rows e \<longrightarrow>
               IsAttending profileId eventId w =
                 ((is_among profileId (map (\<lambda>r. case r of Inl _ \<Rightarrow> 0 | Inr i \<Rightarrow> i) rows), None),
                  CacheSetInt64Slice (mcEventKeys CacheProfileIds eventId)
                    (map (\<lambda>r. case r of Inl _ \<Rightarrow> 0 | Inr i \<Rightarrow> i) rows) (mcTtl w) w))"
    by (simp add: IsAttending_def m2 Let_def)
  show ?thesis using a b c d by blast
qed

lemmas eval_defs5 = eval_defs4 IsAttending_def CacheGetInt64Slice_def CacheSetInt64Slice_def w_shape_def

theorem cache_failure_is_a_miss_witness:
  "cache_read (mcProfileKeys CacheSummary 7) w_shape = Some (VInt64 1)
   \<and> fst (GetProfileSummary 1 7 w_shape) = (summary_demo 7, StatusOK, None)
   \<and> cache_read (mcProfileKeys CacheSummary 7) (snd (GetProfileSummary 1 7 w_shape)) =
       Some (VProfileSummary (summary_demo 7))
   \<and> fst (IsAttending 5 4 w_shape) = (True, None)
   \<and> cache_read (mcEventKeys CacheProfileIds 4) (snd (IsAttending 5 4 w_shape)) =
       Some (VInt64Slice [6, 0, 5])"
  using cache_failure_is_a_miss [of 7 w_shape 4 1 5]
  by (simp add: eval_defs5)

section \<open>Tenant checks on cache hits\<close>

lemma GetProfile_rejects_foreign_hit:
  assumes "id' \<noteq> 0"
      and "CacheGet_ProfileType (mcProfileKeys CacheDetail id') w = Some m"
      and "p_SiteId m \<noteq> siteId"
  shows "GetProfile siteId id' w = ((ProfileType0, StatusNotFound, Some ''Not found''), w)"
  using assms by (simp add: GetProfile_def)

lemma GetProfileSummary_rejects_foreign_hit:
  assumes "id' \<noteq> 0"
      and "CacheGet_ProfileSummaryType (mcProfileKeys CacheSummary id') w = Some m"
      and "ps_SiteId m \<noteq> siteId"
  shows "GetProfileSummary siteId id' w =
           ((ProfileSummaryType0, StatusNotFound, Some ''Not found''), w)"
  using assms by (simp add: GetProfileSummary_def)

lemmas eval_defs6 = eval_defs5 GetEvent_def CacheGet_EventType_def w_leak_def event_5_def
  EventType_FetchProfileSummaries_def EventType_GetAttending_def EventType0_def EventMeta0_def
  Flags0_def

text \<open>
  C3. \<^verbatim>\<open>GetProfile\<close> and \<^verbatim>\<open>GetProfileSummary\<close> compare the site of a cached value with
  the requested site and answer NotFound on a mismatch (the two lemmas above).
  \<^verbatim>\<open>GetEvent\<close> makes no comparison. The run below is the failing input: the data store
  has no event 5 on site 1 (a read through the store answers NotFound), the cache holds the
  detail of event 5, and \<^verbatim>\<open>GetEvent\<close> for site 1 returns the cached event.
\<close>

theorem GetEvent_returns_foreign_cache_hit:
  "cache_read (mcEventKeys CacheDetail 5) w_leak = Some (VEvent event_5)
   \<and> q_GetEvent w_leak 1 5 = ErrNoRows
   \<and> fst (GetEvent 1 5 0 w_leak) =
       (event_5\<lparr>e_Meta := (e_Meta event_5)\<lparr>em_CreatedBy := Some (summary_demo 7)\<rparr>\<rparr>, 0, None)
   \<and> fst (GetEvent 1 5 0 (w_leak\<lparr>cache := Map.empty\<rparr>)) =
       (EventType0, StatusNotFound, Some ''Event not found'')"
  by (simp add: eval_defs6)

section \<open>The offset check of the list functions\<close>

lemma GetProfiles_no_unit_error:
  assumes conn: "faults w GetConnection = None"
      and count: "q_GetProfiles_count w siteId so limit offset = Row total'"
      and page: "q_GetProfiles w siteId so limit offset = Rows (map Inr ids) None"
      and sched: "mset sched = mset [0..<length ids]"
      and arrival: "mset arrival = mset [0..<length ids]"
      and noerr: "\<forall>r \<in> set (fst (fan_out siteId ids sched w)). Err r = None"
  shows "fst (GetProfiles siteId so limit offset sched arrival w) =
           (if offset > GetMaxOffset total' limit then
              ([], 0, 0, StatusBadRequest,
               Some (''not enough records, offset ('' @ fmt_d offset
                     @ '') would return an empty page.''))
            else (map Item (sort_key Seq (receive (fst (fan_out siteId ids sched w)) arrival)),
                  total', GetPageCount total' limit, StatusOK, None))"
proof -
  let ?sent = "fst (fan_out siteId ids sched w)"
  let ?resps = "receive ?sent arrival"
  have len: "length ?sent = length ids"
    using sched by (metis fan_out_length mset_eq_length length_upt diff_zero)
  have "mset ?resps = mset ?sent"
    using arrival len by (simp add: receive_mset)
  then have "set ?resps = set ?sent" by (rule mset_eq_setD)
  then have fe: "first_error ?resps = None"
    using noerr by (simp add: first_error_None)
  show ?thesis
    using conn count page fe
    by (simp add: GetProfiles_def scan_ids_Inr GetProfiles_gather_unfold)
qed

lemma GetEvents_after_rows:
  assumes conn: "faults w GetConnection = None"
      and events: "q_GetEvents w siteId profileId attending limit offset = Rows rows None"
      and loop: "GetEvents_rows siteId profileId rows 0 [] w = (Inr (total', ems), w1)"
  shows "fst (GetEvents siteId profileId attending limit offset w) =
           (if offset > GetMaxOffset total' limit then
              ([], 0, 0, StatusBadRequest,
               Some (''not enough records, offset ('' @ fmt_d offset
                     @ '') would return an empty page.''))
            else (ems, total', GetPageCount total' limit, StatusOK, None))"
  using assms by (simp add: GetEvents_def Let_def)

lemmas eval_defs7 = eval_defs6 w_25_def summary_5_def GetEvents_def
  EventSummaryType_FetchProfileSummaries_def EventSummaryType_GetAttending_def
  fill_EventSummary_def EventSummaryType0_def SummaryMeta0_def lib_demo_def

text \<open>
  C5, as stated, fails for \<^verbatim>\<open>GetProfiles\<close>: its offset check comes after the gather, so
  a request whose offset is beyond the maximal offset is answered with the status of a
  failed unit when there is one. Below the total is 25 and the limit 10, hence the maximal
  offset is 20; the request with offset 21 is answered 404, the status of the unit of
  profile 6, not 400.
\<close>

theorem offset_check_after_gather_counterexample:
  "q_GetProfiles_count w_25_missing 1 so_demo 10 21 = Row 25
   \<and> GetMaxOffset 25 10 = 20
   \<and> fst (GetProfiles 1 so_demo 10 21 [0, 1] [0, 1] w_25_missing) =
       ([], 0, 0, StatusNotFound, Some ''Resource with profile ID 6 not found'')"
  by (simp add: eval_defs7 w_25_missing_def)

text \<open>
  C5, amended. For a non-negative total and a positive limit the page count is the ceiling
  of total/limit and the maximal offset is \<open>max 0 ((pages - 1) * limit)\<close>, which for a
  positive total leaves a last page that is not empty; for total 25 and limit 10 there are
  3 pages and the maximal offset is 20. When the count and page queries of
  \<^verbatim>\<open>GetProfiles\<close> succeed and no unit reports an error, \<^verbatim>\<open>GetProfiles\<close> answers 400 with
  the message about the empty page for an offset above the maximal offset of the counted
  total, and 200 at the maximal offset. Independently, when the query of \<^verbatim>\<open>GetEvents\<close>
  succeeds and every row is scanned and its summary fetched without error,
  \<^verbatim>\<open>GetEvents\<close> answers 400 with the same message for an offset above the maximal offset
  of the total read from the rows, and 200 with the summaries at the maximal offset.
\<close>

theorem pagination_and_offset_check:
  "(0 \<le> n \<longrightarrow> 0 < k \<longrightarrow>
      GetPageCount n k = \<lceil>real_of_int n / real_of_int k\<rceil>
      \<and> GetMaxOffset n k = max 0 ((GetPageCount n k - 1) * k)
      \<and> (0 < n \<longrightarrow> GetMaxOffset n k < n \<and> n \<le> GetMaxOffset n k + k))
   \<and> GetPageCount 25 10 = 3 \<and> GetMaxOffset 25 10 = 20
   \<and> (faults w GetConnection = None \<longrightarrow>
      q_GetProfiles_count w siteId so limit offset = Row total' \<longrightarrow>
      q_GetProfiles w siteId so limit offset = Rows (map Inr ids) None \<longrightarrow>
      mset sched = mset [0..<length ids] \<longrightarrow>
      mset arrival = mset [0..<length ids] \<longrightarrow>
      (\<forall>r \<in> set (fst (fan_out siteId ids sched w)). Err r = None) \<longrightarrow>
        (GetMaxOffset total' limit < offset \<longrightarrow>
           fst (GetProfiles siteId so limit offset sched arrival w) =
             ([], 0, 0, StatusBadRequest,
              Some (''not enough records, offset ('' @ fmt_d offset
                    @ '') would return an empty page.'')))
        \<and> (offset = GetMaxOffset total' limit \<longrightarrow>
             snd (fst (GetProfiles siteId so limit offset sched arrival w)) =
               (total', GetPageCount total' limit, StatusOK, None)))
   \<and> (faults w2 GetConnection = None \<longrightarrow>
      q_GetEvents w2 siteId2 profileId attending limit2 offset2 = Rows rows None \<longrightarrow>
      GetEvents_rows siteId2 profileId rows 0 [] w2 = (Inr (total2, ems), w3) \<longrightarrow>
        (GetMaxOffset total2 limit2 < offset2 \<longrightarrow>
           fst (GetEvents siteId2 profileId attending limit2 offset2 w2) =
             ([], 0, 0, StatusBadRequest,
              Some (''not enough records, offset ('' @ fmt_d offset2
                    @ '') would return an empty page.'')))
        \<and> (offset2 = GetMaxOffset total2 limit2 \<longrightarrow>
             fst (GetEvents siteId2 profileId attending limit2 offset2 w2) =
               (ems, total2, GetPageCount total2 limit2, StatusOK, None)))"
proof (intro conjI impI)
  show "GetPageCount n k = \<lceil>real_of_int n / real_of_int k\<rceil>"
    by (simp add: GetPageCount_def)
  show "GetMaxOffset n k = max 0 ((GetPageCount n k - 1) * k)"
    by (simp add: GetMaxOffset_def)
  show "GetPageCount 25 10 = 3"
    by (simp add: GetPageCount_div)
  show "GetMaxOffset 25 10 = 20"
    by (simp add: GetPageCount_div GetMaxOffset_def)
next
  assume "0 < k" "0 < n"
  then show "GetMaxOffset n k < n" "n \<le> GetMaxOffset n k + k"
    using GetMaxOffset_last_page [of n k] by simp_all
next
  assume conn: "faults w GetConnection = None"
     and count: "q_GetProfiles_count w siteId so limit offset = Row total'"
     and page: "q_GetProfiles w siteId so limit offset = Rows (map Inr ids) None"
     and sched: "mset sched = mset [0..<length ids]"
     and arrival: "mset arrival = mset [0..<length ids]"
     and noerr: "\<forall>r \<in> set (fst (fan_out siteId ids sched w)). Err r = None"
  note P = GetProfiles_no_unit_error [OF conn count page sched arrival noerr]
  {
    assume "GetMaxOffset total' limit < offset"
    then show "fst (GetProfiles siteId so limit offset sched arrival w) =
             ([], 0, 0, StatusBadRequest,
              Some (''not enough records, offset ('' @ fmt_d offset
                    @ '') would return an empty page.''))"
      using P by simp
  }
  {
    assume "offset = GetMaxOffset total' limit"
    then have "\<not> GetMaxOffset total' limit < offset" by simp
    then show "snd (fst (GetProfiles siteId so limit offset sched arrival w)) =
               (total', GetPageCount total' limit, StatusOK, None)"
      using P by simp
  }
next
  assume conn: "faults w2 GetConnection = None"
     and events: "q_GetEvents w2 siteId2 profileId attending limit2 offset2 = Rows rows None"
     and loop: "GetEvents_rows siteId2 profileId rows 0 [] w2 = (Inr (total2, ems), w3)"
  note E = GetEvents_after_rows [OF conn events loop]
  {
    assume "GetMaxOffset total2 limit2 < offset2"
    then show "fst (GetEvents siteId2 profileId attending limit2 offset2 w2) =
             ([], 0, 0, StatusBadRequest,
              Some (''not enough records, offset ('' @ fmt_d offset2
                    @ '') would return an empty page.''))"
      using E by simp
  }
  {
    assume "offset2 = GetMaxOffset total2 limit2"
    then have "\<not> GetMaxOffset total2 limit2 < offset2" by simp
    then show "fst (GetEvents siteId2 profileId attending limit2 offset2 w2) =
               (ems, total2, GetPageCount total2 limit2, StatusOK, None)"
      using E by simp
  }
qed

theorem pagination_and_offset_check_witness:
  "GetMaxOffset 25 10 < 25 \<and> 25 \<le> GetMaxOffset 25 10 + 10
   \<and> fst (GetProfiles 1 so_demo 10 21 [1, 0] [0, 1] w_25) =
     ([], 0, 0, StatusBadRequest,
      Some ''not enough records, offset (21) would return an empty page.'')
   \<and> snd (fst (GetProfiles 1 so_demo 10 20 [1, 0] [0, 1] w_25)) = (25, 3, StatusOK, None)
   \<and> fst (GetEvents 1 0 False 10 21 w_25) =
     ([], 0, 0, StatusBadRequest,
      Some ''not enough records, offset (21) would return an empty page.'')
   \<and> snd (fst (GetEvents 1 0 False 10 20 w_25)) = (25, 3, StatusOK, None)"
proof -
  let ?rows = "[Inr (25, 5, False)] :: (string + int \<times> int \<times> bool) list"
  let ?loop = "GetEvents_rows 1 0 ?rows 0 [] w_25"
  let ?ems = "case fst ?loop of Inr (t, ems) \<Rightarrow> ems"
  have h1: "(0::int) \<le> 25" and h2: "(0::int) < 10" and h2': "(0::int) < 25"
   and h3: "faults w_25 GetConnection = None"
   and h4: "q_GetProfiles_count w_25 1 so_demo 10 off = Row 25"
   and h5: "q_GetProfiles w_25 1 so_demo 10 off = Rows (map Inr [7, 5]) None"
   and h6: "mset [1, 0] = mset [0..<length [7, 5 :: int]]"
   and h7: "mset [0, 1] = mset [0..<length [7, 5 :: int]]"
   and h9: "q_GetEvents w_25 1 0 False 10 off = Rows ?rows None"
   and h10: "?loop = (Inr (25, ?ems), snd ?loop)" for off
    by (simp_all add: eval_defs7)
  have h8: "r \<in> set (fst (fan_out 1 [7, 5] [1, 0] w_25)) \<Longrightarrow> Err r = None" for r
    by (auto simp add: eval_defs7)
  have m: "GetMaxOffset 25 10 = 20" "GetPageCount 25 10 = 3"
    by (simp_all add: GetPageCount_div GetMaxOffset_def)
  note A = pagination_and_offset_check [THEN conjunct1, rule_format, OF h1 h2]
  note P21 = pagination_and_offset_check
      [THEN conjunct2, THEN conjunct2, THEN conjunct2, THEN conjunct1, rule_format,
       OF h3 h4 [of 21] h5 [of 21] h6 h7 h8]
  note P20 = pagination_and_offset_check
      [THEN conjunct2, THEN conjunct2, THEN conjunct2, THEN conjunct1, rule_format,
       OF h3 h4 [of 20] h5 [of 20] h6 h7 h8]
  note E21 = pagination_and_offset_check
      [THEN conjunct2, THEN conjunct2, THEN conjunct2, THEN conjunct2, rule_format,
       OF h3 h9 [of 21] h10]
  note E20 = pagination_and_offset_check
      [THEN conjunct2, THEN conjunct2, THEN conjunct2, THEN conjunct2, rule_format,
       OF h3 h9 [of 20] h10]
  have a: "GetMaxOffset 25 10 < 25 \<and> 25 \<le> GetMaxOffset 25 10 + 10"
    using A h2' by simp
  show ?thesis
    using a P21 P20 E21 E20 by (simp add: m fmt_d_def digits.simps digit_def)
qed

section \<open>The fingerprint of Insert\<close>

lemma EventType_Validate_frame:
  assumes a: "lib w' = lib w" and b: "GetMicrocosmSummary w' = GetMicrocosmSummary w"
  shows "EventType_Validate m siteId profileId ex w' = EventType_Validate m siteId profileId ex w"
  unfolding EventType_Validate_def sanitise_Event_def whisper_EditReason_def parse_When_def
    whisper_Where_def spaces_and_visibility_def a b ..

lemma dupeKey_frame:
  assumes a: "lib w' = lib w"
  shows "dupeKey m w' = dupeKey m w"
  unfolding dupeKey_def a ..

lemma same_sanitise:
  "same_significant_fields m m' \<Longrightarrow> same_significant_fields (sanitise_Event m w) (sanitise_Event m' w)"
  by (simp add: same_significant_fields_def sanitise_Event_def)

lemma same_title_status:
  "same_significant_fields m m' \<Longrightarrow>
   same_fp (default_Status (m\<lparr>e_Title := f (e_Title m)\<rparr>))
           (default_Status (m'\<lparr>e_Title := f (e_Title m')\<rparr>))"
  by (simp add: same_fp_def same_significant_fields_def default_Status_def)

lemma same_parse:
  "same_fp m m' \<Longrightarrow>
   (case (parse_When m w, parse_When m' w) of
      (Inl e, Inl e') \<Rightarrow> e = e'
    | (Inr c, Inr c') \<Rightarrow> same_fp c c'
    | _ \<Rightarrow> False)"
  by (simp add: same_fp_def same_significant_fields_def parse_When_def split: sum.splits)

lemma same_where:
  "same_fp m m' \<Longrightarrow>
   same_fp (whisper_Where (default_Duration m) w) (whisper_Where (default_Duration m') w)"
  by (simp add: same_fp_def same_significant_fields_def whisper_Where_def default_Duration_def)

lemma same_finish:
  "same_fp m m' \<Longrightarrow> same_fp (spaces_and_visibility m w) (spaces_and_visibility m' w)"
  by (simp add: same_fp_def same_significant_fields_def spaces_and_visibility_def)

lemma same_fp_dupeKey: "same_fp m m' \<Longrightarrow> dupeKey m w = dupeKey m' w"
  by (simp add: same_fp_def same_significant_fields_def dupeKey_def)


lemma EventType_Validate_same:
  assumes same: "same_significant_fields m m'"
  shows "fst (EventType_Validate m' siteId profileId False w) =
           fst (EventType_Validate m siteId profileId False w)
       \<and> (snd (fst (EventType_Validate m siteId profileId False w)) = None \<longrightarrow>
            same_fp (snd (EventType_Validate m siteId profileId False w))
                    (snd (EventType_Validate m' siteId profileId False w)))"
proof -
  let ?a = "sanitise_Event m w" and ?a' = "sanitise_Event m' w"
  have sa: "same_significant_fields ?a ?a'" using same by (rule same_sanitise)
  then have mc: "e_MicrocosmId ?a' = e_MicrocosmId ?a" and ti: "e_Title ?a' = e_Title ?a"
    by (simp_all add: same_significant_fields_def)
  let ?b = "default_Status (?a\<lparr>e_Title := ShoutToWhisper (lib w) (e_Title ?a)\<rparr>)"
  let ?b' = "default_Status (?a'\<lparr>e_Title := ShoutToWhisper (lib w) (e_Title ?a')\<rparr>)"
  have sb: "same_fp ?b ?b'" using sa by (rule same_title_status)
  show ?thesis
  proof (cases "GetMicrocosmSummary w siteId (e_MicrocosmId ?a) profileId")
    case (Pair status err)
    show ?thesis
    proof (cases err)
      case (Some e)
      then show ?thesis using Pair mc
        by (simp add: EventType_Validate_def Let_def)
    next
      case None
      note ms = Pair None
      show ?thesis
      proof (cases "e_MicrocosmId ?a \<le> 0 \<or> e_Title ?a = []")
        case True
        then show ?thesis using ms mc ti
          by (auto simp add: EventType_Validate_def Let_def)
      next
        case False
        show ?thesis
        proof (cases "parse_When ?b w")
          case (Inl e)
          then have "parse_When ?b' w = Inl e"
            using same_parse [OF sb, of w] by (simp split: sum.splits)
          then show ?thesis using ms mc ti False Inl
            by (simp add: EventType_Validate_def Let_def)
        next
          case (Inr c)
          then obtain c' where c': "parse_When ?b' w = Inr c'" and sc: "same_fp c c'"
            using same_parse [OF sb, of w] by (auto split: sum.splits)
          let ?d = "whisper_Where (default_Duration c) w"
          let ?d' = "whisper_Where (default_Duration c') w"
          have sd: "same_fp ?d ?d'" using sc by (rule same_where)
          then have rl: "e_RSVPLimit ?d' = e_RSVPLimit ?d"
            by (simp add: same_fp_def same_significant_fields_def)
          have sf: "same_fp (spaces_and_visibility ?d w) (spaces_and_visibility ?d' w)"
            using sd by (rule same_finish)
          have v: "EventType_Validate m siteId profileId False w =
              (if e_RSVPLimit ?d < 0 then
                 ((StatusBadRequest, Some ''RSVPLimit must be 0 (unlimited) or greater''), ?d)
               else ((StatusOK, None), spaces_and_visibility ?d w))"
            using ms False Inr by (simp add: EventType_Validate_def Let_def)
          have v': "EventType_Validate m' siteId profileId False w =
              (if e_RSVPLimit ?d < 0 then
                 ((StatusBadRequest, Some ''RSVPLimit must be 0 (unlimited) or greater''), ?d')
               else ((StatusOK, None), spaces_and_visibility ?d' w))"
            using ms mc ti False c' rl by (simp add: EventType_Validate_def Let_def)
          show ?thesis
            using sd sf by (simp add: v v')
        qed
      qed
    qed
  qed
qed

lemma dupeKey_Named: "\<exists>n. dupeKey m w = NamedKey n"
  by (simp add: dupeKey_def Let_def)

lemma Insert_success_on_miss:
  assumes first: "EventType_Insert m siteId profileId w = ((StatusOK, None), m1, w1)"
      and miss: "\<not> snd (CacheGetInt64 (dupeKey (snd (EventType_Validate m siteId profileId False w)) w) w)"
  shows "snd (fst (EventType_Validate m siteId profileId False w)) = None
       \<and> m1 = (snd (EventType_Validate m siteId profileId False w))\<lparr>e_Id := events_seq (db w)\<rparr>
       \<and> w1 = after_insert (snd (EventType_Validate m siteId profileId False w))
                 (dupeKey (snd (EventType_Validate m siteId profileId False w)) w) w"
proof (cases "EventType_Validate m siteId profileId False w")
  case (Pair se mv)
  obtain st err where se: "se = (st, err)" by (cases se)
  obtain v ok where g: "CacheGetInt64 (dupeKey mv w) w = (v, ok)" by (cases "CacheGetInt64 (dupeKey mv w) w")
  have nok: "\<not> ok" using miss Pair g by simp
  show ?thesis
    using first Pair se g nok
    by (auto simp add: EventType_Insert_def Let_def QueryRow_InsertEvent_def
          IncrementMicrocosmItemCount_def tx_Commit_def tx_Begin_def after_insert_def
          split: option.splits if_splits)
qed


lemma after_insert_frame:
  "lib (after_insert mv key w) = lib w"
  "GetMicrocosmSummary (after_insert mv key w) = GetMicrocosmSummary w"
  "clock (after_insert mv key w) = clock w"
  "cache_up (after_insert mv key w) = cache_up w"
  "events_tbl (db (after_insert mv key w)) = events_tbl (db w) @ [mv\<lparr>e_Id := events_seq (db w)\<rparr>]"
  "log (after_insert mv key w) =
     log w @ [Committed ''INSERT INTO events'', Purged ItemTypeEvent (events_seq (db w)),
              Purged ItemTypeMicrocosm (e_MicrocosmId mv)]"
  by (simp_all add: after_insert_def PurgeCache_def CacheSetInt64_def CacheSet_def)

lemma after_insert_remembers:
  "cache_up w \<Longrightarrow>
   cache (after_insert mv (NamedKey n) w) (NamedKey n) =
     Some (VInt64 (events_seq (db w)), clock w + 60 * 5)"
  by (simp add: after_insert_def PurgeCache_def CacheSetInt64_def CacheSet_def)

text \<open>
  C4. Let a first \<^verbatim>\<open>Insert\<close> miss the fingerprint key and return OK, on a cache that
  answers. It has inserted exactly one row, committed, remembered the event's identifier
  under the fingerprint key with a deadline 300 seconds ahead, and then purged. A second
  \<^verbatim>\<open>Insert\<close> of an event with the same significant fields, less than 300 seconds
  later in the world the first call left, returns OK with the same identifier and leaves
  the world untouched: no transaction, no row, no purge.
\<close>

theorem Insert_twice_inserts_once:
  assumes same: "same_significant_fields m m'"
      and first: "EventType_Insert m siteId profileId w = ((StatusOK, None), m1, w1)"
      and miss: "\<not> snd (CacheGetInt64
                    (dupeKey (snd (EventType_Validate m siteId profileId False w)) w) w)"
      and up: "cache_up w"
      and within: "d < 60 * 5"
  shows "fst (EventType_Insert m' siteId profileId (w1\<lparr>clock := clock w1 + d\<rparr>)) = (StatusOK, None)
       \<and> e_Id (fst (snd (EventType_Insert m' siteId profileId (w1\<lparr>clock := clock w1 + d\<rparr>)))) = e_Id m1
       \<and> snd (snd (EventType_Insert m' siteId profileId (w1\<lparr>clock := clock w1 + d\<rparr>))) =
           w1\<lparr>clock := clock w1 + d\<rparr>
       \<and> events_tbl (db w1) = events_tbl (db w) @ [m1]
       \<and> cache w1 (dupeKey m1 w) = Some (VInt64 (e_Id m1), clock w + 60 * 5)
       \<and> log w1 = log w @ [Committed ''INSERT INTO events'', Purged ItemTypeEvent (e_Id m1),
                            Purged ItemTypeMicrocosm (e_MicrocosmId m1)]"
proof -
  let ?mv = "snd (EventType_Validate m siteId profileId False w)"
  let ?mv' = "snd (EventType_Validate m' siteId profileId False w)"
  let ?key = "dupeKey ?mv w"
  let ?w' = "w1\<lparr>clock := clock w1 + d\<rparr>"
  let ?id = "events_seq (db w)"
  note S = Insert_success_on_miss [OF first miss]
  have ok: "snd (fst (EventType_Validate m siteId profileId False w)) = None"
   and m1: "m1 = ?mv\<lparr>e_Id := ?id\<rparr>" and w1: "w1 = after_insert ?mv ?key w"
    using S by simp_all
  obtain n where n: "?key = NamedKey n" using dupeKey_Named by blast
  have key1: "dupeKey m1 w = ?key" by (simp add: m1 dupeKey_def)
  have idm: "e_Id m1 = ?id" by (simp add: m1)
  note V = EventType_Validate_same [OF same, of siteId profileId w]
  have fp: "same_fp ?mv ?mv'" using V ok by simp
  have lib: "lib ?w' = lib w" and gms: "GetMicrocosmSummary ?w' = GetMicrocosmSummary w"
    by (simp_all add: w1 after_insert_frame)
  have val': "EventType_Validate m' siteId profileId False ?w' =
              EventType_Validate m' siteId profileId False w"
    using lib gms by (rule EventType_Validate_frame)
  have "snd (fst (EventType_Validate m' siteId profileId False w)) = None"
    using V ok by simp
  then obtain st where st': "fst (EventType_Validate m' siteId profileId False w) = (st, None)"
    by (cases "fst (EventType_Validate m' siteId profileId False w)") simp
  have key': "dupeKey ?mv' ?w' = NamedKey n"
    using dupeKey_frame [OF lib, of ?mv'] same_fp_dupeKey [OF fp, of w] n by simp
  have hit: "CacheGetInt64 (NamedKey n) ?w' = (?id, True)"
    using up within after_insert_remembers [OF up, of ?mv n]
    by (simp add: CacheGetInt64_def cache_read_def w1 n after_insert_frame)
  have second: "EventType_Insert m' siteId profileId ?w' =
      ((StatusOK, None), ?mv'\<lparr>e_Id := ?id\<rparr>, ?w')"
    using st' key' hit
    by (cases "EventType_Validate m' siteId profileId False w")
       (simp add: EventType_Insert_def val' Let_def)
  have tbl: "events_tbl (db w1) = events_tbl (db w) @ [m1]"
    by (simp add: w1 m1 after_insert_frame)
  have rem: "cache w1 (dupeKey m1 w) = Some (VInt64 (e_Id m1), clock w + 60 * 5)"
    unfolding key1 n w1 idm using after_insert_remembers [OF up, of ?mv n] n by simp
  have lg: "log w1 = log w @ [Committed ''INSERT INTO events'', Purged ItemTypeEvent (e_Id m1),
                            Purged ItemTypeMicrocosm (e_MicrocosmId m1)]"
    by (simp add: w1 m1 after_insert_frame)
  show ?thesis
    using second tbl rem lg by (simp add: m1)
qed

lemmas eval_defs8 = eval_defs7 EventType_Insert_def EventType_Validate_def sanitise_Event_def
  whisper_EditReason_def default_Status_def parse_When_def default_Duration_def
  whisper_Where_def spaces_and_visibility_def dupeKey_def CacheGetInt64_def CacheSetInt64_def
  QueryRow_InsertEvent_def IncrementMicrocosmItemCount_def tx_Begin_def tx_Commit_def
  PurgeCache_def event_new_def event_retry_def Trim_space_def same_significant_fields_def

theorem Insert_twice_inserts_once_witness:
  "fst (EventType_Insert event_new 1 7 w_demo) = (StatusOK, None)
   \<and> e_Id (fst (snd (EventType_Insert event_new 1 7 w_demo))) = 1
   \<and> fst (EventType_Insert event_retry 1 7
         ((snd (snd (EventType_Insert event_new 1 7 w_demo)))\<lparr>clock := 1000 + 120\<rparr>)) =
       (StatusOK, None)
   \<and> e_Id (fst (snd (EventType_Insert event_retry 1 7
         ((snd (snd (EventType_Insert event_new 1 7 w_demo)))\<lparr>clock := 1000 + 120\<rparr>)))) = 1
   \<and> length (events_tbl (db (snd (snd (EventType_Insert event_retry 1 7
         ((snd (snd (EventType_Insert event_new 1 7 w_demo)))\<lparr>clock := 1000 + 120\<rparr>)))))) = 1"
proof -
  let ?r = "EventType_Insert event_new 1 7 w_demo"
  have h1: "same_significant_fields event_new event_retry"
    by (simp add: eval_defs8)
  have st: "fst ?r = (StatusOK, None)" and idn: "e_Id (fst (snd ?r)) = 1"
    and ck: "clock (snd (snd ?r)) = 1000"
    by (simp_all add: eval_defs8)
  have h2: "?r = ((StatusOK, None), fst (snd ?r), snd (snd ?r))"
    using st by (cases ?r) simp
  have h3: "\<not> snd (CacheGetInt64 (dupeKey (snd (EventType_Validate event_new 1 7 False w_demo)) w_demo) w_demo)"
    by (simp add: eval_defs8)
  have h4: "cache_up w_demo" by (simp add: w_demo_def)
  have h5: "(120::nat) < 60 * 5" by simp
  note T = Insert_twice_inserts_once [OF h1 h2 h3 h4 h5]
  have tbl: "events_tbl (db w_demo) = []" by (simp add: w_demo_def tables_demo_def)
  show ?thesis
    using T st idn by (simp add: ck tbl)
qed

section \<open>Commits and purges of the mutating operations\<close>


lemma cache_read_PurgeCache:
  "cache_read (ItemKey t' s i') (PurgeCache t i w) =
     (if t' = t \<and> i' = i then None else cache_read (ItemKey t' s i') w)"
  by (auto simp add: PurgeCache_def cache_read_def split: option.splits)

lemma purged_PurgeCache [simp]: "purged t i (PurgeCache t i w)"
  by (simp add: purged_def cache_read_PurgeCache)

lemma purged_PurgeCache_other [simp]: "purged t i w \<Longrightarrow> purged t i (PurgeCache t' i' w)"
  by (simp add: purged_def cache_read_PurgeCache)

lemma log_PurgeCache [simp]: "log (PurgeCache t i w) = log w @ [Purged t i]"
  by (simp add: PurgeCache_def)

lemma log_PurgeCacheByScope [simp]:
  "log (PurgeCacheByScope s t i w) = log w @ [PurgedScope s t i]"
  by (simp add: PurgeCacheByScope_def)

lemma log_CacheSetInt64 [simp]: "log (CacheSetInt64 k v ttl w) = log w"
  by (simp add: CacheSetInt64_def CacheSet_def)






lemma stage_ids [simp]:
  "e_Id (sanitise_Event m w) = e_Id m" "e_MicrocosmId (sanitise_Event m w) = e_MicrocosmId m"
  "e_Id (whisper_EditReason m w) = e_Id m" "e_MicrocosmId (whisper_EditReason m w) = e_MicrocosmId m"
  "e_Id (default_Status m) = e_Id m" "e_MicrocosmId (default_Status m) = e_MicrocosmId m"
  "e_Id (default_Duration m) = e_Id m" "e_MicrocosmId (default_Duration m) = e_MicrocosmId m"
  "e_Id (whisper_Where m w) = e_Id m" "e_MicrocosmId (whisper_Where m w) = e_MicrocosmId m"
  "e_Id (spaces_and_visibility m w) = e_Id m"
  "e_MicrocosmId (spaces_and_visibility m w) = e_MicrocosmId m"
  by (simp_all add: sanitise_Event_def whisper_EditReason_def default_Status_def
        default_Duration_def whisper_Where_def spaces_and_visibility_def)





















end
